theory Spec2Isabelle
  imports Complex_Main "HOL-Library.AList"
begin

section \<open>JavaScript strings\<close>

text \<open>
  A JavaScript string is a sequence of UTF-16 code units. It is modelled as a
  \<^typ>\<open>string\<close>; each \<^typ>\<open>char\<close> stands for one code unit below 256, so
  \<open>length\<close> is the \<open>.length\<close> of the source and \<open>take n\<close> is
  \<open>.substring(0, n)\<close>.
\<close>

definition code_unit :: "char \<Rightarrow> nat" where
  "code_unit c = of_char c"

text \<open>The class \<open>\w\<close> of a regular expression without the \<open>u\<close> flag: \<open>[A-Za-z0-9_]\<close>.\<close>

definition is_word_char :: "char \<Rightarrow> bool" where
  "is_word_char c =
     (let n = code_unit c
      in (48 \<le> n \<and> n \<le> 57) \<or> (65 \<le> n \<and> n \<le> 90) \<or> n = 95 \<or> (97 \<le> n \<and> n \<le> 122))"

text \<open>
  The class \<open>\s\<close>, which is also what \<open>String.prototype.trim\<close> removes: tab, line
  feed, vertical tab, form feed, carriage return, space and no-break space (the members
  below 256).
\<close>

definition is_space_char :: "char \<Rightarrow> bool" where
  "is_space_char c = (code_unit c \<in> {9, 10, 11, 12, 13, 32, 160})"

definition trim :: "string \<Rightarrow> string" where
  "trim s = rev (dropWhile is_space_char (rev (dropWhile is_space_char s)))"

text \<open>\<open>s.split(sep)\<close> for a separator of one code unit; \<open>''.split(' ')\<close> is \<open>['']\<close>.\<close>

fun split_on :: "char \<Rightarrow> string \<Rightarrow> string list" where
  "split_on sep [] = [[]]"
| "split_on sep (c # cs) =
     (if c = sep then [] # split_on sep cs
      else (case split_on sep cs of
              [] \<Rightarrow> [[c]]
            | w # ws \<Rightarrow> (c # w) # ws))"

text \<open>\<open>words.join(sep)\<close>.\<close>

fun join :: "string \<Rightarrow> string list \<Rightarrow> string" where
  "join sep [] = []"
| "join sep [w] = w"
| "join sep (w # ws) = w @ sep @ join sep ws"

text \<open>\<open>xs.slice(-n)\<close> for \<open>n > 0\<close>: the last \<open>n\<close> elements, all of them when there are fewer.\<close>

definition slice_last :: "nat \<Rightarrow> 'a list \<Rightarrow> 'a list" where
  "slice_last n xs = drop (length xs - n) xs"

text \<open>\<open>n.toString()\<close> for a non-negative integer below \<open>2^53\<close>: its decimal digits.\<close>

fun number_toString :: "nat \<Rightarrow> string" where
  "number_toString n =
     (if n < 10 then [char_of (48 + n)]
      else number_toString (n div 10) @ [char_of (48 + n mod 10)])"

declare number_toString.simps [simp del]

section \<open>The canonical data model\<close>

text \<open>
  A number field of a usage object as JavaScript sees it: a number, \<open>NaN\<close> (what
  \<open>undefined + undefined\<close> gives) or \<open>undefined\<close> (a field the vendor left out and the
  adapter copied).
\<close>

datatype jsnum = Num int | NaN | Undefined

record usage =
  prompt_tokens :: jsnum
  completion_tokens :: jsnum
  total_tokens :: jsnum

text \<open>The \<open>lastMessage\<close> object of a metadata record.\<close>

record preview =
  p_role :: string
  p_content :: string
  p_timestamp :: string

text \<open>
  The fields \<open>lastUpdated\<close>, \<open>messageCount\<close> and \<open>lastMessage\<close> on an object that is not
  a metadata record, as a file holds them: \<open>messageCount\<close> is \<open>null\<close> (\<open>None\<close>) after
  it was assigned \<open>NaN\<close>, else a number.
\<close>

record index_fields =
  x_lastUpdated :: string
  x_messageCount :: "nat option"
  x_lastMessage :: preview

text \<open>
  A message as the server builds it: \<open>{role, content, timestamp}\<close>, for an assistant
  turn also \<open>model\<close> and \<open>usage\<close>; \<open>saveMessage\<close> adds \<open>id\<close> and \<open>createdAt\<close>. A
  field that is absent is \<open>None\<close>. \<open>msg_index\<close> is set only on a message that the
  metadata update found as an element of \<open>metadata.json\<close> and assigned its three fields
  to.
\<close>

record message =
  role :: string
  content :: string
  timestamp :: string
  msg_model :: "string option"
  msg_usage :: "usage option"
  msg_id :: "real option"
  msg_createdAt :: "string option"
  msg_index :: "index_fields option"

text \<open>
  One entry of \<open>metadata.json\<close>. It is created with \<open>createdAt\<close>, \<open>messageCount\<close> and
  \<open>title\<close>; \<open>lastUpdated\<close> and \<open>lastMessage\<close> are assigned next.
\<close>

record meta =
  createdAt :: string
  messageCount :: nat
  title :: string
  lastUpdated :: "string option"
  lastMessage :: "preview option"

section \<open>The conversation store (ConversationManager)\<close>

text \<open>
  The directory \<open>data/conversations\<close>. \<open>files s id\<close> is the log that \<open><id>.json\<close>
  holds, \<open>None\<close> when there is no such log. \<open>metadata.json\<close> is the index file and
  also the log file of the id \<open>metadata\<close>: when \<open>files s ''metadata''\<close> is set, that
  array is what \<open>metadata.json\<close> holds; otherwise it holds the index object
  \<open>metadata s\<close>, given as the list of its own records, or does not exist
  (\<open>metadata s = None\<close>). The order of the records in the list plays no part in any
  function below. File names are compared as strings, as a case-sensitive file system
  does. Reading a file that exists succeeds; whether a write succeeds is given by the
  environment of the call.

  For the id \<open>metadata\<close>, \<open>files s ''metadata'' = None\<close> also covers the directory in
  which \<open>metadata.json\<close> holds the index object. The log functions below are those of
  an id whose file, when it exists, holds a log: they treat that case like a missing
  file, where the code finds an object in place of an array.

  \<open>prototype_polluted s\<close> is a fact about the running process, not about the files: an
  update for the id \<open>__proto__\<close> has assigned \<open>lastUpdated\<close>, \<open>messageCount\<close> and
  \<open>lastMessage\<close> to \<open>Object.prototype\<close>, so that every object inherits them.
\<close>

record store =
  files :: "string \<rightharpoonup> message list"
  metadata :: "(string \<times> meta) list option"
  prototype_polluted :: bool

datatype error =
    ENOENT
  | IOError
  | TypeError
  | VendorError string
  | ApiError string error

text \<open>
  What the environment gives one call: the clock, the random number and whether each
  \<open>fs.writeFile\<close> succeeds.
\<close>

record meta_env =
  meta_created_iso :: string
  meta_updated_iso :: string
  meta_write_ok :: bool

record save_env =
  date_now :: nat
  math_random :: real
  created_iso :: string
  log_write_ok :: bool
  menv :: meta_env

definition generateTitle :: "string \<Rightarrow> string" where
  "generateTitle c =
     (let cleanContent = trim (filter (\<lambda>ch. is_word_char ch \<or> is_space_char ch) c);
          words = take 5 (split_on CHR '' '' cleanContent);
          joined = join '' '' words
      in if joined = [] then ''New Conversation'' else joined)"

text \<open>What \<open>JSON.parse\<close> of \<open>metadata.json\<close> gives, if the file can be read.\<close>

datatype index_file =
    NoIndex
  | IndexObject "(string \<times> meta) list"
  | IndexArray "message list"

definition read_index :: "store \<Rightarrow> index_file" where
  "read_index s =
     (case files s ''metadata'' of
        Some xs \<Rightarrow> IndexArray xs
      | None \<Rightarrow> (case metadata s of None \<Rightarrow> NoIndex | Some md \<Rightarrow> IndexObject md))"

text \<open>
  \<open>metadata[conversationId]\<close> reads through the prototype chain. These are the property
  names every object inherits from \<open>Object.prototype\<close>; their values are functions, and
  \<open>Object.prototype\<close> itself for \<open>__proto__\<close>.
\<close>

definition object_prototype_names :: "string list" where
  "object_prototype_names =
     [''constructor'', ''__proto__'', ''hasOwnProperty'', ''isPrototypeOf'',
      ''propertyIsEnumerable'', ''toLocaleString'', ''toString'', ''valueOf'',
      ''__defineGetter__'', ''__defineSetter__'', ''__lookupGetter__'', ''__lookupSetter__'']"

text \<open>
  What an object without an own property \<open>k\<close> yields for \<open>k\<close>: nothing, an inherited
  object or function (truthy, and it takes assignments), an inherited string (truthy,
  and an assignment to a property of it throws in strict mode, which a class body is),
  or an inherited \<open>NaN\<close> (falsy).
\<close>

datatype inherited = NotInherited | InheritedObject | InheritedString | InheritedNaN

definition inherited_value :: "store \<Rightarrow> string \<Rightarrow> inherited" where
  "inherited_value s k =
     (if k \<in> set object_prototype_names then InheritedObject
      else if prototype_polluted s \<and> k = ''lastUpdated'' then InheritedString
      else if prototype_polluted s \<and> k = ''lastMessage'' then InheritedObject
      else if prototype_polluted s \<and> k = ''messageCount'' then InheritedNaN
      else NotInherited)"

text \<open>
  \<open>{role, content: content.substring(0, 100) + (content.length > 100 ? '...' : ''),
  timestamp}\<close>.
\<close>

definition last_preview :: "message \<Rightarrow> preview" where
  "last_preview lastMsg =
     \<lparr>p_role = role lastMsg,
      p_content = take 100 (content lastMsg) @
        (if length (content lastMsg) > 100 then ''...'' else []),
      p_timestamp = timestamp lastMsg\<rparr>"

text \<open>The three assignments to \<open>metadata[conversationId]\<close> when that is a record.\<close>

definition assign_last :: "meta \<Rightarrow> message \<Rightarrow> meta_env \<Rightarrow> meta" where
  "assign_last entry lastMsg e =
     entry\<lparr>lastUpdated := Some (meta_updated_iso e),
            messageCount := messageCount entry + 1,
            lastMessage := Some (last_preview lastMsg)\<rparr>"

text \<open>
  The same three assignments when \<open>metadata[conversationId]\<close> is a message, as the file
  holds them afterwards: \<open>undefined + 1\<close> is \<open>NaN\<close>, written as \<open>null\<close>, and
  \<open>null + 1\<close> is \<open>1\<close>.
\<close>

definition assign_last_to_message :: "message \<Rightarrow> message \<Rightarrow> meta_env \<Rightarrow> message" where
  "assign_last_to_message el lastMsg e =
     el\<lparr>msg_index := Some
          \<lparr>x_lastUpdated = meta_updated_iso e,
           x_messageCount = (case msg_index el of
                               None \<Rightarrow> None
                             | Some f \<Rightarrow> (case x_messageCount f of
                                            None \<Rightarrow> Some 1
                                          | Some n \<Rightarrow> Some (n + 1))),
           x_lastMessage = last_preview lastMsg\<rparr>\<rparr>"

text \<open>
  \<open>xs[k]\<close> for a property name \<open>k\<close>: the position of the element when \<open>k\<close> is the decimal
  numeral of an index of the array.
\<close>

definition array_index :: "string \<Rightarrow> 'a list \<Rightarrow> nat option" where
  "array_index k xs = find (\<lambda>i. number_toString i = k) [0..<length xs]"

text \<open>\<open>fs.writeFile(metadataPath, JSON.stringify(metadata))\<close> for an object.\<close>

definition write_index :: "store \<Rightarrow> (string \<times> meta) list \<Rightarrow> meta_env \<Rightarrow> store" where
  "write_index s md e = (if meta_write_ok e then s\<lparr>metadata := Some md\<rparr> else s)"

text \<open>
  \<open>updateConversationMetadata\<close>. Every error is caught and logged, so it returns in
  every case.

  When \<open>metadata.json\<close> holds an object (or cannot be read, which gives \<open>{}\<close>): an own
  record is updated. Without an own record, \<open>!metadata[conversationId]\<close> decides: if the
  object inherits nothing truthy under that name, a record is created, updated and
  written. If it inherits a function or an object, no record is created, the assignments
  go to the inherited value (to \<open>Object.prototype\<close> for the id \<open>__proto__\<close>) and the own
  records are written as they were, \<open>{}\<close> when there were none. If it inherits a string,
  the first assignment throws and nothing is written.

  When \<open>metadata.json\<close> holds a log (an array): a property with the name of the id is
  not part of what \<open>JSON.stringify\<close> writes for an array, so no record persists and the
  array is written back; only when the id is the index of a message in the array do
  the assignments reach that message.
\<close>

definition update_index_object ::
  "store \<Rightarrow> (string \<times> meta) list \<Rightarrow> string \<Rightarrow> message \<Rightarrow> meta_env \<Rightarrow> store" where
  "update_index_object s md conversationId lastMsg e =
     (case map_of md conversationId of
        Some entry \<Rightarrow>
          write_index s (AList.update conversationId (assign_last entry lastMsg e) md) e
      | None \<Rightarrow>
          (case inherited_value s conversationId of
             InheritedObject \<Rightarrow>
               write_index
                 (s\<lparr>prototype_polluted :=
                      prototype_polluted s \<or> conversationId = ''__proto__''\<rparr>) md e
           | InheritedString \<Rightarrow> s
           | _ \<Rightarrow>
               write_index s
                 (AList.update conversationId
                    (assign_last \<lparr>createdAt = meta_created_iso e, messageCount = 0,
                                  title = generateTitle (content lastMsg),
                                  lastUpdated = None, lastMessage = None\<rparr> lastMsg e) md) e))"

definition updateConversationMetadata :: "store \<Rightarrow> string \<Rightarrow> message \<Rightarrow> meta_env \<Rightarrow> store" where
  "updateConversationMetadata s conversationId lastMsg e =
     (case read_index s of
        NoIndex \<Rightarrow> update_index_object s [] conversationId lastMsg e
      | IndexObject md \<Rightarrow> update_index_object s md conversationId lastMsg e
      | IndexArray xs \<Rightarrow>
          (case array_index conversationId xs of
             None \<Rightarrow> s
           | Some i \<Rightarrow>
               if meta_write_ok e
               then s\<lparr>files := (files s)(''metadata'' \<mapsto>
                        xs[i := assign_last_to_message (xs ! i) lastMsg e])\<rparr>
               else s))"

text \<open>
  \<open>{...message, id: Date.now() + Math.random(), createdAt: new Date().toISOString()}\<close>,
  the entry \<open>saveMessage\<close> pushes.
\<close>

definition stamp :: "save_env \<Rightarrow> message \<Rightarrow> message" where
  "stamp e m = m\<lparr>msg_id := Some (real (date_now e) + math_random e),
                  msg_createdAt := Some (created_iso e)\<rparr>"

definition getConversation :: "store \<Rightarrow> string \<Rightarrow> message list" where
  "getConversation s conversationId =
     (case files s conversationId of None \<Rightarrow> [] | Some conversation \<Rightarrow> conversation)"

text \<open>
  \<open>saveMessage\<close> reads the log (an empty one when the file cannot be read), pushes the
  entry, keeps the last 50, writes the log and updates the metadata. A failing write of
  the log is thrown to the caller and leaves the store as it was; a failing write of the
  metadata is caught and logged inside \<open>updateConversationMetadata\<close>.
\<close>

definition saveMessage :: "store \<Rightarrow> string \<Rightarrow> message \<Rightarrow> save_env \<Rightarrow> (error + unit) \<times> store" where
  "saveMessage s conversationId m e =
     (let conversation0 = (case files s conversationId of None \<Rightarrow> [] | Some c \<Rightarrow> c);
          conversation1 = conversation0 @ [stamp e m];
          conversation = (if length conversation1 > 50 then slice_last 50 conversation1
                          else conversation1)
      in if \<not> log_write_ok e then (Inl IOError, s)
         else (Inr (),
               updateConversationMetadata
                 (s\<lparr>files := (files s)(conversationId \<mapsto> conversation)\<rparr>)
                 conversationId m (menv e)))"


record stats =
  totalConversations :: nat
  totalMessages :: jsnum
  averageMessagesPerConversation :: "jsnum option"

text \<open>\<open>Math.round(a / b)\<close> for non-negative integers, \<open>b > 0\<close>: halves round up.\<close>

definition round_div :: "nat \<Rightarrow> nat \<Rightarrow> nat" where
  "round_div a b = (2 * a + b) div (2 * b)"

text \<open>
  \<open>sum + conv.messageCount\<close> for an element of a log: the count is \<open>undefined\<close> on a
  message, which makes the sum \<open>NaN\<close>, unless the message was assigned one.
\<close>

definition add_message_count :: "jsnum \<Rightarrow> message \<Rightarrow> jsnum" where
  "add_message_count acc el =
     (case msg_index el of
        None \<Rightarrow> NaN
      | Some f \<Rightarrow>
          (case x_messageCount f of
             None \<Rightarrow> acc
           | Some n \<Rightarrow> (case acc of Num a \<Rightarrow> Num (a + int n) | _ \<Rightarrow> NaN)))"

definition stats_of :: "nat \<Rightarrow> jsnum \<Rightarrow> stats" where
  "stats_of tc tm =
     \<lparr>totalConversations = tc, totalMessages = tm,
      averageMessagesPerConversation =
        Some (if tc > 0
              then (case tm of Num a \<Rightarrow> Num (int (round_div (nat a) tc)) | _ \<Rightarrow> NaN)
              else Num 0)\<rparr>"

definition getConversationStats :: "store \<Rightarrow> stats" where
  "getConversationStats s =
     (case read_index s of
        NoIndex \<Rightarrow> \<lparr>totalConversations = 0, totalMessages = Num 0,
                    averageMessagesPerConversation = None\<rparr>
      | IndexObject md \<Rightarrow>
          stats_of (length md) (Num (int (sum_list (map (\<lambda>(k, conv). messageCount conv) md))))
      | IndexArray xs \<Rightarrow> stats_of (length xs) (foldl add_message_count (Num 0) xs))"

record import_env =
  import_now :: nat
  import_write_ok :: bool
  import_menv :: meta_env

text \<open>\<open>conversationId || Date.now().toString()\<close>: an absent or empty id is replaced.\<close>

definition import_id :: "string option \<Rightarrow> import_env \<Rightarrow> string" where
  "import_id conversationId e =
     (case conversationId of
        None \<Rightarrow> number_toString (import_now e)
      | Some c \<Rightarrow> if c = [] then number_toString (import_now e) else c)"

definition importConversation ::
  "store \<Rightarrow> message list \<Rightarrow> string option \<Rightarrow> import_env \<Rightarrow> (error + string) \<times> store" where
  "importConversation s conversationData conversationId e =
     (let ident = import_id conversationId e
      in if \<not> import_write_ok e then (Inl IOError, s)
         else (let s1 = s\<lparr>files := (files s)(ident \<mapsto> conversationData)\<rparr>
               in (Inr ident,
                   if length conversationData > 0
                   then updateConversationMetadata s1 ident (last conversationData) (import_menv e)
                   else s1)))"

text \<open>Appending a sequence of messages to one conversation, one \<open>saveMessage\<close> after the other.\<close>

fun saveMessages :: "store \<Rightarrow> string \<Rightarrow> (save_env \<times> message) list \<Rightarrow> store" where
  "saveMessages s conversationId [] = s"
| "saveMessages s conversationId ((e, m) # rest) =
     saveMessages (snd (saveMessage s conversationId m e)) conversationId rest"

text \<open>The own metadata record of a conversation in the index object.\<close>

definition entry_of :: "store \<Rightarrow> string \<Rightarrow> meta option" where
  "entry_of s conversationId =
     (case read_index s of IndexObject md \<Rightarrow> map_of md conversationId | _ \<Rightarrow> None)"

text \<open>
  A conversation id that names a log file of its own: it is not the name of the index
  file, and it has no path separator, so that \<open>path.join\<close> puts \<open><id>.json\<close> into the
  directory under exactly that name.
\<close>

definition plain_id :: "string \<Rightarrow> bool" where
  "plain_id cid = (cid \<noteq> ''metadata'' \<and> CHR ''/'' \<notin> set cid \<and> CHR 0x5C \<notin> set cid)"

text \<open>Every write of a sequence of appends succeeds.\<close>

definition writes_ok :: "(save_env \<times> message) list \<Rightarrow> bool" where
  "writes_ok ems =
     list_all (\<lambda>em. log_write_ok (fst em) \<and> meta_write_ok (menv (fst em))) ems"

subsection \<open>The title as the specification words it\<close>

text \<open>
  Following the spec's words, to be compared with \<open>generateTitle\<close>: strip punctuation
  (the ASCII punctuation characters), take the first five whitespace-delimited tokens,
  join them with one space, and fall back to the placeholder when there is no token.
\<close>

definition is_punctuation :: "char \<Rightarrow> bool" where
  "is_punctuation c =
     (let n = code_unit c
      in (33 \<le> n \<and> n \<le> 47) \<or> (58 \<le> n \<and> n \<le> 64) \<or> (91 \<le> n \<and> n \<le> 96) \<or>
         (123 \<le> n \<and> n \<le> 126))"

fun whitespace_tokens :: "string \<Rightarrow> string \<Rightarrow> string list" where
  "whitespace_tokens w [] = (if w = [] then [] else [w])"
| "whitespace_tokens w (c # cs) =
     (if is_space_char c
      then (if w = [] then whitespace_tokens [] cs else w # whitespace_tokens [] cs)
      else whitespace_tokens (w @ [c]) cs)"

definition spec_title :: "string \<Rightarrow> string" where
  "spec_title c =
     (let tokens = take 5 (whitespace_tokens [] (filter (\<lambda>ch. \<not> is_punctuation ch) c))
      in if tokens = [] then ''New Conversation'' else join '' '' tokens)"

subsection \<open>Concrete data for the worked examples\<close>

definition empty_store :: store where
  "empty_store = \<lparr>files = Map.empty, metadata = None, prototype_polluted = False\<rparr>"

definition demo_menv :: meta_env where
  "demo_menv = \<lparr>meta_created_iso = ''2023-11-14T22:13:20.001Z'',
                 meta_updated_iso = ''2023-11-14T22:13:20.002Z'', meta_write_ok = True\<rparr>"

definition demo_env :: "nat \<Rightarrow> save_env" where
  "demo_env i = \<lparr>date_now = 1700000000000 + i, math_random = 1 / 2,
     created_iso = ''2023-11-14T22:13:20.000Z'', log_write_ok = True, menv = demo_menv\<rparr>"

definition demo_msg :: "nat \<Rightarrow> message" where
  "demo_msg i = \<lparr>role = ''user'', content = ''turn '' @ number_toString i,
     timestamp = ''2023-11-14T22:13:19.000Z'', msg_model = None, msg_usage = None,
     msg_id = None, msg_createdAt = None, msg_index = None\<rparr>"

definition demo_first :: "save_env \<times> message" where
  "demo_first = (demo_env 0, demo_msg 0\<lparr>content := ''Hello there, friend''\<rparr>)"

definition demo_import_env :: import_env where
  "demo_import_env =
     \<lparr>import_now = 1700000000000, import_write_ok = True, import_menv = demo_menv\<rparr>"


definition demo_three :: "(save_env \<times> message) list" where
  "demo_three = [demo_first, (demo_env 1, demo_msg 1), (demo_env 2, demo_msg 2)]"

definition demo_final :: message where
  "demo_final = demo_msg 60\<lparr>content := ''So long, and thanks for all the fish!''\<rparr>"

definition demo_import_data :: "message list" where
  "demo_import_data = map demo_msg [0..<60] @ [demo_final]"

section \<open>Properties of the conversation store\<close>

subsection \<open>The log\<close>

lemma slice_last_append:
  "slice_last n (slice_last n xs @ ys) = slice_last n (xs @ ys)"
proof (cases "length xs \<le> n")
  case True
  then show ?thesis by (simp add: slice_last_def)
next
  case False
  define k where "k = length xs - n"
  from False have lx: "length xs = k + n" by (simp add: k_def)
  have "drop (length ys) (drop k xs @ ys) = drop (k + length ys) (xs @ ys)"
    by (simp add: lx add.commute)
  then show ?thesis
    unfolding slice_last_def by (simp add: lx)
qed


text \<open>No decimal numeral is the word \<open>metadata\<close>: it ends with a digit.\<close>

lemma number_toString_last:
  "number_toString n \<noteq> [] \<and> last (number_toString n) = char_of (48 + n mod 10)"
  by (subst number_toString.simps, subst (2) number_toString.simps) simp

lemma number_toString_not_metadata: "number_toString n \<noteq> ''metadata''"
proof
  assume a: "number_toString n = ''metadata''"
  have "last (number_toString n) = char_of (48 + n mod 10)"
    by (simp add: number_toString_last)
  with a have "char_of (48 + n mod 10) = CHR ''a''" by simp
  then have "of_char (char_of (48 + n mod 10) :: char) = (of_char (CHR ''a'') :: nat)" by simp
  then show False by simp
qed

lemma array_index_metadata: "array_index ''metadata'' xs = None"
  by (simp add: array_index_def find_None_iff number_toString_not_metadata)

text \<open>
  The metadata update writes no file but \<open>metadata.json\<close>, and it leaves the log of the
  conversation it is called for as it is, also when that log is \<open>metadata.json\<close>.
\<close>

lemma files_update_other:
  "k \<noteq> ''metadata'' \<Longrightarrow> files (updateConversationMetadata s cid m e) k = files s k"
  by (simp add: updateConversationMetadata_def update_index_object_def write_index_def
        split: index_file.splits option.splits inherited.splits)

lemma update_own_log:
  "files (updateConversationMetadata s cid m e) cid = files s cid"
proof (cases "cid = ''metadata''")
  case True
  then show ?thesis
    by (simp add: updateConversationMetadata_def update_index_object_def write_index_def
        array_index_metadata split: index_file.splits option.splits inherited.splits)
next
  case False
  then show ?thesis by (simp add: files_update_other)
qed

lemma saveMessage_log:
  "log_write_ok e \<Longrightarrow>
   getConversation (snd (saveMessage s cid m e)) cid
     = slice_last 50 (getConversation s cid @ [stamp e m])"
  by (simp add: saveMessage_def Let_def getConversation_def update_own_log slice_last_def
        split: option.splits)

lemma saveMessages_log:
  "writes_ok ems \<Longrightarrow> ems \<noteq> [] \<Longrightarrow>
   getConversation (saveMessages s cid ems) cid
     = slice_last 50 (getConversation s cid @ map (\<lambda>(e, m). stamp e m) ems)"
proof (induction ems arbitrary: s)
  case Nil
  then show ?case by simp
next
  case (Cons em ems)
  obtain e m where em: "em = (e, m)" by (cases em)
  from Cons.prems em have ok: "log_write_ok e" and oks: "writes_ok ems"
    by (simp_all add: writes_ok_def)
  let ?s1 = "snd (saveMessage s cid m e)"
  note g1 = saveMessage_log [OF ok, of s cid m]
  show ?case
  proof (cases "ems = []")
    case True
    then show ?thesis using g1 em by simp
  next
    case False
    from Cons.IH [OF oks False, of ?s1]
    have "getConversation (saveMessages ?s1 cid ems) cid
       = slice_last 50 (slice_last 50 (getConversation s cid @ [stamp e m])
           @ map (\<lambda>(e, m). stamp e m) ems)"
      by (simp add: g1)
    then show ?thesis using em by (simp add: slice_last_append)
  qed
qed





subsection \<open>The metadata record of an id with a log file of its own\<close>

text \<open>
  Here \<open>metadata.json\<close> holds no log, the id is not \<open>metadata\<close>, and the index object
  inherits nothing under the name of the id. Then an update creates the record if there
  is none, counts the message and replaces \<open>lastUpdated\<close> and \<open>lastMessage\<close>; appends
  keep these three conditions.
\<close>

lemma entry_of_update:
  assumes "meta_write_ok e" and "files s ''metadata'' = None"
      and "inherited_value s cid = NotInherited"
  shows "entry_of (updateConversationMetadata s cid m e) cid =
     Some \<lparr>createdAt = (case entry_of s cid of None \<Rightarrow> meta_created_iso e | Some x \<Rightarrow> createdAt x),
           messageCount = (case entry_of s cid of None \<Rightarrow> 0 | Some x \<Rightarrow> messageCount x) + 1,
           title = (case entry_of s cid of None \<Rightarrow> generateTitle (content m) | Some x \<Rightarrow> title x),
           lastUpdated = Some (meta_updated_iso e),
           lastMessage = Some \<lparr>p_role = role m,
             p_content = take 100 (content m) @ (if length (content m) > 100 then ''...'' else []),
             p_timestamp = timestamp m\<rparr>\<rparr>"
  using assms
  by (simp add: updateConversationMetadata_def update_index_object_def write_index_def
        entry_of_def read_index_def assign_last_def last_preview_def update_Some_unfold
        split: option.splits)

lemma update_keeps_index_kind:
  assumes "files s ''metadata'' = None" and "inherited_value s cid = NotInherited"
  shows "files (updateConversationMetadata s cid m e) ''metadata'' = None \<and>
         prototype_polluted (updateConversationMetadata s cid m e) = prototype_polluted s"
  using assms
  by (simp add: updateConversationMetadata_def update_index_object_def write_index_def
        read_index_def split: option.splits)

lemma inherited_value_cong:
  "prototype_polluted s' = prototype_polluted s \<Longrightarrow> inherited_value s' cid = inherited_value s cid"
  by (simp add: inherited_value_def)

lemma saveMessage_keeps_index_kind:
  assumes "cid \<noteq> ''metadata''" and "files s ''metadata'' = None"
      and "inherited_value s cid = NotInherited"
  shows "files (snd (saveMessage s cid m e)) ''metadata'' = None \<and>
         inherited_value (snd (saveMessage s cid m e)) cid = NotInherited"
proof (cases "log_write_ok e")
  case False
  then show ?thesis using assms by (simp add: saveMessage_def Let_def)
next
  case True
  define s1 where "s1 = s\<lparr>files := (files s)(cid \<mapsto>
      (let c1 = (case files s cid of None \<Rightarrow> [] | Some c \<Rightarrow> c) @ [stamp e m]
       in if length c1 > 50 then slice_last 50 c1 else c1))\<rparr>"
  have s: "snd (saveMessage s cid m e) = updateConversationMetadata s1 cid m (menv e)"
    using True by (simp add: saveMessage_def Let_def s1_def)
  have f: "files s1 ''metadata'' = None"
    using assms(1,2) by (simp add: s1_def)
  have "inherited_value s1 cid = inherited_value s cid"
    by (rule inherited_value_cong) (simp add: s1_def)
  with assms(3) have i: "inherited_value s1 cid = NotInherited"
    by simp
  note k = update_keeps_index_kind [OF f i, of m "menv e"]
  have "inherited_value (updateConversationMetadata s1 cid m (menv e)) cid = inherited_value s1 cid"
    by (rule inherited_value_cong) (simp add: k)
  with k i show ?thesis unfolding s by simp
qed

lemma saveMessages_keeps_index_kind:
  "cid \<noteq> ''metadata'' \<Longrightarrow> files s ''metadata'' = None \<Longrightarrow>
   inherited_value s cid = NotInherited \<Longrightarrow>
   files (saveMessages s cid ems) ''metadata'' = None \<and>
   inherited_value (saveMessages s cid ems) cid = NotInherited"
proof (induction ems arbitrary: s)
  case Nil
  then show ?case by simp
next
  case (Cons em ems)
  obtain e m where em: "em = (e, m)" by (cases em)
  note keep = saveMessage_keeps_index_kind [OF Cons.prems, of m e]
  from Cons.IH [OF Cons.prems(1), of "snd (saveMessage s cid m e)"] keep em
  show ?case by simp
qed

lemma entry_of_log_written:
  "cid \<noteq> ''metadata'' \<Longrightarrow> entry_of (s\<lparr>files := (files s)(cid \<mapsto> c)\<rparr>) k = entry_of s k"
  by (simp add: entry_of_def read_index_def split: option.splits)

lemma entry_of_saveMessage:
  assumes "log_write_ok e" and "meta_write_ok (menv e)"
      and "cid \<noteq> ''metadata''" and "files s ''metadata'' = None"
      and "inherited_value s cid = NotInherited"
  shows "entry_of (snd (saveMessage s cid m e)) cid =
     Some \<lparr>createdAt = (case entry_of s cid of None \<Rightarrow> meta_created_iso (menv e) | Some x \<Rightarrow> createdAt x),
           messageCount = (case entry_of s cid of None \<Rightarrow> 0 | Some x \<Rightarrow> messageCount x) + 1,
           title = (case entry_of s cid of None \<Rightarrow> generateTitle (content m) | Some x \<Rightarrow> title x),
           lastUpdated = Some (meta_updated_iso (menv e)),
           lastMessage = Some \<lparr>p_role = role m,
             p_content = take 100 (content m) @ (if length (content m) > 100 then ''...'' else []),
             p_timestamp = timestamp m\<rparr>\<rparr>"
proof -
  define s1 where "s1 = s\<lparr>files := (files s)(cid \<mapsto>
      (let c1 = (case files s cid of None \<Rightarrow> [] | Some c \<Rightarrow> c) @ [stamp e m]
       in if length c1 > 50 then slice_last 50 c1 else c1))\<rparr>"
  have s: "snd (saveMessage s cid m e) = updateConversationMetadata s1 cid m (menv e)"
    using assms(1) by (simp add: saveMessage_def Let_def s1_def)
  have f: "files s1 ''metadata'' = None"
    using assms(3,4) by (simp add: s1_def)
  have "inherited_value s1 cid = inherited_value s cid"
    by (rule inherited_value_cong) (simp add: s1_def)
  with assms(5) have i: "inherited_value s1 cid = NotInherited"
    by simp
  have en: "entry_of s1 cid = entry_of s cid"
    using assms(3,4) by (simp add: entry_of_def read_index_def s1_def)
  show ?thesis
    unfolding s using entry_of_update [OF assms(2) f i, of m] by (simp add: en)
qed

lemma entry_of_saveMessages:
  "writes_ok ems \<Longrightarrow> ems \<noteq> [] \<Longrightarrow> cid \<noteq> ''metadata'' \<Longrightarrow> files s ''metadata'' = None \<Longrightarrow>
   inherited_value s cid = NotInherited \<Longrightarrow>
   entry_of (saveMessages s cid ems) cid =
     Some \<lparr>createdAt = (case entry_of s cid of None \<Rightarrow> meta_created_iso (menv (fst (hd ems)))
                         | Some x \<Rightarrow> createdAt x),
           messageCount = (case entry_of s cid of None \<Rightarrow> 0 | Some x \<Rightarrow> messageCount x) + length ems,
           title = (case entry_of s cid of None \<Rightarrow> generateTitle (content (snd (hd ems)))
                    | Some x \<Rightarrow> title x),
           lastUpdated = Some (meta_updated_iso (menv (fst (last ems)))),
           lastMessage = Some \<lparr>p_role = role (snd (last ems)),
             p_content = take 100 (content (snd (last ems))) @
               (if length (content (snd (last ems))) > 100 then ''...'' else []),
             p_timestamp = timestamp (snd (last ems))\<rparr>\<rparr>"
proof (induction ems arbitrary: s)
  case Nil
  then show ?case by simp
next
  case (Cons em ems)
  obtain e m where em: "em = (e, m)" by (cases em)
  from Cons.prems em have ok: "log_write_ok e" "meta_write_ok (menv e)" and oks: "writes_ok ems"
    by (simp_all add: writes_ok_def)
  let ?s1 = "snd (saveMessage s cid m e)"
  note first = entry_of_saveMessage [OF ok Cons.prems(3) Cons.prems(4) Cons.prems(5), of m]
  note keep = saveMessage_keeps_index_kind [OF Cons.prems(3) Cons.prems(4) Cons.prems(5), of m e]
  show ?case
  proof (cases "ems = []")
    case True
    then show ?thesis using first em by (simp split: option.splits)
  next
    case False
    from Cons.IH [OF oks False Cons.prems(3), of ?s1] keep first em False
    show ?thesis by (simp split: option.splits)
  qed
qed

lemma plain_id_not_metadata: "plain_id cid \<Longrightarrow> cid \<noteq> ''metadata''"
  by (simp add: plain_id_def)

lemma demo_plain: "plain_id ''c1''"
  by (simp add: plain_id_def)

lemma empty_store_index:
  "files empty_store k = None \<and> inherited_value empty_store ''c1'' = NotInherited \<and>
   entry_of empty_store k = None"
  by (simp add: empty_store_def inherited_value_def object_prototype_names_def entry_of_def
        read_index_def)

text \<open>The preview of a message longer than 100 characters is its first 100 and \<open>...\<close>.\<close>

lemma last_preview_long:
  "p_content (last_preview (m\<lparr>content := replicate 101 c\<rparr>)) = replicate 100 c @ ''...''"
  by (simp add: last_preview_def)

text \<open>
  After \<open>N \<ge> 1\<close> successful appends to such an id that had no record, the record shows
  \<open>messageCount = N\<close> (also when the log itself was cut to 50), \<open>lastUpdated\<close> is the
  time of the last append, and \<open>lastMessage\<close> is the last appended message, its content
  cut to 100 characters and followed by \<open>...\<close> when it was longer.
\<close>

lemma own_record_after_appends:
  assumes "writes_ok ems" and "ems \<noteq> []" and "entry_of s cid = None"
      and "plain_id cid" and "files s ''metadata'' = None"
      and "inherited_value s cid = NotInherited"
  shows "\<exists>entry. entry_of (saveMessages s cid ems) cid = Some entry \<and>
           messageCount entry = length ems \<and>
           lastUpdated entry = Some (meta_updated_iso (menv (fst (last ems)))) \<and>
           lastMessage entry =
             Some \<lparr>p_role = role (snd (last ems)),
                   p_content = take 100 (content (snd (last ems))) @
                     (if length (content (snd (last ems))) > 100 then ''...'' else []),
                   p_timestamp = timestamp (snd (last ems))\<rparr>"
  using entry_of_saveMessages [OF assms(1) assms(2) plain_id_not_metadata [OF assms(4)]
      assms(5) assms(6)] assms(3) by simp

text \<open>
  Importing a non-empty sequence under such an id that has no record stores the sequence
  as it is, however long, and creates a record with \<open>messageCount = 1\<close> whose title and
  \<open>lastMessage\<close> come from the last message of the sequence.
\<close>

lemma import_plain_id:
  assumes "import_write_ok e" and "meta_write_ok (import_menv e)"
      and "conversationData \<noteq> []"
      and "entry_of s (import_id conversationId e) = None"
      and "plain_id (import_id conversationId e)" and "files s ''metadata'' = None"
      and "inherited_value s (import_id conversationId e) = NotInherited"
  shows "fst (importConversation s conversationData conversationId e)
           = Inr (import_id conversationId e) \<and>
         files (snd (importConversation s conversationData conversationId e))
           (import_id conversationId e) = Some conversationData \<and>
         entry_of (snd (importConversation s conversationData conversationId e))
             (import_id conversationId e) =
           Some \<lparr>createdAt = meta_created_iso (import_menv e), messageCount = 1,
                 title = generateTitle (content (last conversationData)),
                 lastUpdated = Some (meta_updated_iso (import_menv e)),
                 lastMessage =
                   Some \<lparr>p_role = role (last conversationData),
                         p_content = take 100 (content (last conversationData)) @
                           (if length (content (last conversationData)) > 100 then ''...'' else []),
                         p_timestamp = timestamp (last conversationData)\<rparr>\<rparr>"
proof -
  define i where "i = import_id conversationId e"
  define s1 where "s1 = s\<lparr>files := (files s)(i \<mapsto> conversationData)\<rparr>"
  have ne: "i \<noteq> ''metadata''"
    using assms(5) by (simp add: i_def plain_id_def)
  have r: "importConversation s conversationData conversationId e
             = (Inr i, updateConversationMetadata s1 i (last conversationData) (import_menv e))"
    using assms(1) assms(3) by (simp add: importConversation_def Let_def i_def s1_def)
  have f: "files (updateConversationMetadata s1 i (last conversationData) (import_menv e)) i
             = Some conversationData"
    by (simp add: update_own_log s1_def)
  have f1: "files s1 ''metadata'' = None"
    using ne assms(6) by (simp add: s1_def)
  have "inherited_value s1 i = inherited_value s i"
    by (rule inherited_value_cong) (simp add: s1_def)
  with assms(7) have i1: "inherited_value s1 i = NotInherited"
    by (simp add: i_def)
  have en: "entry_of s1 i = None"
    unfolding s1_def using entry_of_log_written [OF ne] assms(4) by (simp add: i_def)
  from entry_of_update [OF assms(2) f1 i1, of "last conversationData"] r f
  show ?thesis unfolding i_def [symmetric] by (simp add: en)
qed

text \<open>
  C5 (title), as the code has it, for a conversation id with a log file of its own whose
  name the index object does not inherit, while \<open>metadata.json\<close> holds no log. The
  title of the conversation is set when its metadata record is created, at the first
  append, to \<open>generateTitle\<close> of that first message's content, and later appends keep
  it: after the first append and any number of further ones the title is still
  \<open>generateTitle\<close> of the first content; a record that already exists keeps its title.
  \<open>generateTitle\<close> removes every character that is not a letter \<open>A-Z a-z\<close>, a digit,
  an underscore or white space, trims the result, splits it at every single space and
  joins the first five pieces with spaces (\<open>New Conversation\<close> when that is empty).
\<close>

theorem title_set_once:
  assumes "writes_ok ((e1, m1) # rest)"
      and "plain_id cid" and "files s ''metadata'' = None"
      and "inherited_value s cid = NotInherited"
  shows "(entry_of s cid = None \<longrightarrow>
            (\<exists>entry. entry_of (saveMessages s cid ((e1, m1) # rest)) cid = Some entry \<and>
               title entry = generateTitle (content m1))) \<and>
         (\<forall>old. entry_of s cid = Some old \<longrightarrow>
            (\<exists>entry. entry_of (saveMessages s cid ((e1, m1) # rest)) cid = Some entry \<and>
               title entry = title old))"
  using entry_of_saveMessages [OF assms(1) _ plain_id_not_metadata [OF assms(2)] assms(3) assms(4)]
  by simp

theorem title_set_once_witness:
  "writes_ok [demo_first] \<and> plain_id ''c1'' \<and> files empty_store ''metadata'' = None \<and>
   inherited_value empty_store ''c1'' = NotInherited \<and> entry_of empty_store ''c1'' = None \<and>
   (\<exists>entry. entry_of (saveMessages empty_store ''c1'' [demo_first]) ''c1'' = Some entry \<and>
      title entry = ''Hello there friend'') \<and>
   writes_ok [(demo_env 1, demo_msg 1), (demo_env 2, demo_msg 2)] \<and>
   files (saveMessages empty_store ''c1'' [demo_first]) ''metadata'' = None \<and>
   inherited_value (saveMessages empty_store ''c1'' [demo_first]) ''c1'' = NotInherited \<and>
   (\<exists>entry. entry_of (saveMessages (saveMessages empty_store ''c1'' [demo_first]) ''c1''
        [(demo_env 1, demo_msg 1), (demo_env 2, demo_msg 2)]) ''c1'' = Some entry \<and>
      title entry = ''Hello there friend'')"
proof -
  let ?s1 = "saveMessages empty_store ''c1'' [demo_first]"
  have w1: "writes_ok [(fst demo_first, snd demo_first)]"
    by (simp add: writes_ok_def demo_first_def demo_env_def demo_menv_def)
  have w2: "writes_ok [(demo_env 1, demo_msg 1), (demo_env 2, demo_msg 2)]"
    by (simp add: writes_ok_def demo_env_def demo_menv_def)
  have f: "files empty_store ''metadata'' = None"
    and i: "inherited_value empty_store ''c1'' = NotInherited"
    and e: "entry_of empty_store ''c1'' = None"
    by (simp_all add: empty_store_index)
  have t: "generateTitle (content (snd demo_first)) = ''Hello there friend''"
    by (simp add: demo_first_def generateTitle_def trim_def is_word_char_def is_space_char_def
          code_unit_def)
  note k = saveMessages_keeps_index_kind [OF plain_id_not_metadata [OF demo_plain] f i,
      of "[demo_first]"]
  from k have f1: "files ?s1 ''metadata'' = None"
    and i1: "inherited_value ?s1 ''c1'' = NotInherited"
    by simp_all
  from title_set_once [OF w1 demo_plain f i] e t
  obtain entry1 where e1: "entry_of ?s1 ''c1'' = Some entry1"
    and t1: "title entry1 = ''Hello there friend''"
    by auto
  from title_set_once [OF w2 demo_plain f1 i1] e1 t1
  have "\<exists>entry. entry_of (saveMessages ?s1 ''c1''
        [(demo_env 1, demo_msg 1), (demo_env 2, demo_msg 2)]) ''c1'' = Some entry \<and>
      title entry = ''Hello there friend''"
    by auto
  with w1 w2 e e1 t1 f i f1 i1 demo_plain show ?thesis
    by simp
qed

text \<open>
  The title of the code is not the title of the specification's words: with two spaces
  between the first two words the code keeps an empty piece, so only four words reach
  the title.
\<close>

theorem title_spec_words_counterexample:
  "generateTitle ''a  b c d e f'' = ''a  b c d'' \<and> spec_title ''a  b c d e f'' = ''a b c d e'' \<and>
   generateTitle ''a  b c d e f'' \<noteq> spec_title ''a  b c d e f''"
  by (simp add: generateTitle_def spec_title_def trim_def is_word_char_def is_space_char_def
        is_punctuation_def code_unit_def)

subsection \<open>Ids for which no metadata record is kept\<close>

text \<open>
  An id that is a property name of \<open>Object.prototype\<close> never gets a record: the test
  \<open>!metadata[conversationId]\<close> finds the inherited value, and what is assigned to that
  value is not part of the index object that is written.
\<close>

lemma inherited_name_not_metadata: "cid \<in> set object_prototype_names \<Longrightarrow> cid \<noteq> ''metadata''"
  by (auto simp: object_prototype_names_def)

lemma constructor_inherited: "''constructor'' \<in> set object_prototype_names"
  by (simp add: object_prototype_names_def)

lemma no_record_for_inherited_name:
  assumes "cid \<in> set object_prototype_names" and "entry_of s cid = None"
  shows "entry_of (updateConversationMetadata s cid m e) cid = None"
  using assms
  by (auto simp: updateConversationMetadata_def update_index_object_def write_index_def
        entry_of_def read_index_def inherited_value_def
        split: option.splits index_file.splits)

lemma no_record_after_appends:
  "cid \<in> set object_prototype_names \<Longrightarrow> entry_of s cid = None \<Longrightarrow>
   entry_of (saveMessages s cid ems) cid = None"
proof (induction ems arbitrary: s)
  case Nil
  then show ?case by simp
next
  case (Cons em ems)
  obtain e m where em: "em = (e, m)" by (cases em)
  have "entry_of (snd (saveMessage s cid m e)) cid = None"
  proof (cases "log_write_ok e")
    case False
    then show ?thesis using Cons.prems(2) by (simp add: saveMessage_def Let_def)
  next
    case True
    define c where "c = (let c1 = (case files s cid of None \<Rightarrow> [] | Some c \<Rightarrow> c) @ [stamp e m]
       in if length c1 > 50 then slice_last 50 c1 else c1)"
    define s1 where "s1 = s\<lparr>files := (files s)(cid \<mapsto> c)\<rparr>"
    have s: "snd (saveMessage s cid m e) = updateConversationMetadata s1 cid m (menv e)"
      using True by (simp add: saveMessage_def Let_def s1_def c_def)
    have "entry_of s1 cid = None"
      unfolding s1_def
      using entry_of_log_written [OF inherited_name_not_metadata [OF Cons.prems(1)]] Cons.prems(2)
      by simp
    then show ?thesis
      unfolding s by (rule no_record_for_inherited_name [OF Cons.prems(1)])
  qed
  from Cons.IH [OF Cons.prems(1) this] em show ?case by simp
qed

lemma import_inherited_name:
  assumes "import_write_ok e" and "cid \<in> set object_prototype_names"
      and "entry_of s cid = None"
  shows "fst (importConversation s conversationData (Some cid) e) = Inr cid \<and>
         files (snd (importConversation s conversationData (Some cid) e)) cid
           = Some conversationData \<and>
         entry_of (snd (importConversation s conversationData (Some cid) e)) cid = None"
proof -
  define s1 where "s1 = s\<lparr>files := (files s)(cid \<mapsto> conversationData)\<rparr>"
  have c: "cid \<noteq> []"
    using assms(2) by (auto simp: object_prototype_names_def)
  then have i: "import_id (Some cid) e = cid"
    by (simp add: import_id_def)
  have r: "importConversation s conversationData (Some cid) e
             = (Inr cid, if length conversationData > 0
                  then updateConversationMetadata s1 cid (last conversationData) (import_menv e)
                  else s1)"
    using assms(1) by (simp add: importConversation_def Let_def i s1_def)
  have en: "entry_of s1 cid = None"
    unfolding s1_def
    using entry_of_log_written [OF inherited_name_not_metadata [OF assms(2)]] assms(3) by simp
  have f: "files s1 cid = Some conversationData"
    by (simp add: s1_def)
  show ?thesis
    unfolding r
    using en f no_record_for_inherited_name [OF assms(2) en] by (simp add: update_own_log)
qed

text \<open>
  An append to the id \<open>metadata\<close> writes its log into \<open>metadata.json\<close>: the index holds
  no record of any conversation afterwards.
\<close>

lemma index_overwritten_by_log:
  "log_write_ok e \<Longrightarrow> entry_of (snd (saveMessage s ''metadata'' m e)) k = None"
  by (simp add: saveMessage_def Let_def entry_of_def read_index_def
        updateConversationMetadata_def array_index_metadata)

lemma demo_three_ok: "writes_ok demo_three \<and> demo_three \<noteq> [] \<and> length demo_three = 3"
  by (simp add: demo_three_def writes_ok_def demo_first_def demo_env_def demo_menv_def)

lemma demo_import_ok:
  "import_write_ok demo_import_env \<and> meta_write_ok (import_menv demo_import_env) \<and>
   demo_import_data \<noteq> [] \<and> length demo_import_data = 61 \<and>
   last demo_import_data = demo_final"
  by (simp add: demo_import_env_def demo_menv_def demo_import_data_def)

lemma demo_final_title: "generateTitle (content demo_final) = ''So long and thanks for''"
  by (simp add: demo_final_def generateTitle_def trim_def is_word_char_def is_space_char_def
        code_unit_def)

text \<open>
  C4 (metadata consistency) does not hold of the code for every conversation id. Three
  successful appends to the id \<open>constructor\<close> in an empty directory store the three
  messages, but the index has no record for the id: \<open>metadata.json\<close> holds \<open>{}\<close> and the
  statistics count no conversation. Three appends to the id \<open>metadata\<close> leave the log
  of three messages in \<open>metadata.json\<close> itself, and no record. The same appends to the
  id \<open>c1\<close> give a record with \<open>messageCount = 3\<close> whose \<open>lastUpdated\<close> and
  \<open>lastMessage\<close> are those of the third append.
\<close>

theorem metadata_record_missing:
  "writes_ok demo_three \<and> length demo_three = 3 \<and>
   getConversation (saveMessages empty_store ''constructor'' demo_three) ''constructor''
     = map (\<lambda>(e, m). stamp e m) demo_three \<and>
   entry_of (saveMessages empty_store ''constructor'' demo_three) ''constructor'' = None \<and>
   metadata (saveMessages empty_store ''constructor'' demo_three) = Some [] \<and>
   totalConversations (getConversationStats (saveMessages empty_store ''constructor'' demo_three))
     = 0 \<and>
   getConversation (saveMessages empty_store ''metadata'' demo_three) ''metadata''
     = map (\<lambda>(e, m). stamp e m) demo_three \<and>
   read_index (saveMessages empty_store ''metadata'' demo_three)
     = IndexArray (map (\<lambda>(e, m). stamp e m) demo_three) \<and>
   entry_of (saveMessages empty_store ''metadata'' demo_three) ''metadata'' = None \<and>
   (\<exists>entry. entry_of (saveMessages empty_store ''c1'' demo_three) ''c1'' = Some entry \<and>
      messageCount entry = 3 \<and>
      lastUpdated entry = Some ''2023-11-14T22:13:20.002Z'' \<and>
      lastMessage entry = Some \<lparr>p_role = ''user'', p_content = ''turn 2'',
                                  p_timestamp = ''2023-11-14T22:13:19.000Z''\<rparr>)"
proof -
  have ok: "writes_ok demo_three" and ne: "demo_three \<noteq> []" and len: "length demo_three = 3"
    by (simp_all add: demo_three_ok)
  have f: "files empty_store k = None" for k
    by (simp add: empty_store_index)
  have log: "getConversation (saveMessages empty_store k demo_three) k
               = map (\<lambda>(e, m). stamp e m) demo_three" for k
    using saveMessages_log [OF ok ne, of empty_store k]
    by (simp add: getConversation_def f slice_last_def len)
  have none: "entry_of (saveMessages empty_store ''constructor'' demo_three) ''constructor'' = None"
    by (rule no_record_after_appends [OF constructor_inherited]) (simp add: empty_store_index)
  have md: "metadata (saveMessages empty_store ''constructor'' demo_three) = Some []"
    by (simp add: demo_three_def demo_first_def saveMessage_def Let_def
          updateConversationMetadata_def update_index_object_def write_index_def read_index_def
          inherited_value_def object_prototype_names_def empty_store_def demo_env_def
          demo_menv_def)
  have fm: "files (saveMessages empty_store ''constructor'' demo_three) ''metadata'' = None"
    by (simp add: demo_three_def demo_first_def saveMessage_def Let_def
          updateConversationMetadata_def update_index_object_def write_index_def read_index_def
          inherited_value_def object_prototype_names_def empty_store_def demo_env_def
          demo_menv_def)
  have st: "totalConversations (getConversationStats
              (saveMessages empty_store ''constructor'' demo_three)) = 0"
    by (simp add: getConversationStats_def read_index_def md fm stats_of_def)
  have arr: "read_index (saveMessages empty_store ''metadata'' demo_three)
               = IndexArray (map (\<lambda>(e, m). stamp e m) demo_three)"
  proof (cases "files (saveMessages empty_store ''metadata'' demo_three) ''metadata''")
    case None
    with log [of "''metadata''"] ne show ?thesis
      by (simp add: getConversation_def)
  next
    case (Some xs)
    with log [of "''metadata''"] show ?thesis
      by (simp add: getConversation_def read_index_def)
  qed
  have nm: "entry_of (saveMessages empty_store ''metadata'' demo_three) ''metadata'' = None"
    by (simp add: entry_of_def arr)
  have "number_toString 2 = ''2''"
    by code_simp
  then have lst: "content (snd (last demo_three)) = ''turn 2''"
    "role (snd (last demo_three)) = ''user''"
    "timestamp (snd (last demo_three)) = ''2023-11-14T22:13:19.000Z''"
    "meta_updated_iso (menv (fst (last demo_three))) = ''2023-11-14T22:13:20.002Z''"
    by (simp_all add: demo_three_def demo_msg_def demo_env_def demo_menv_def)
  have fe: "files empty_store ''metadata'' = None"
    and ie: "inherited_value empty_store ''c1'' = NotInherited"
    and ee: "entry_of empty_store ''c1'' = None"
    by (simp_all add: empty_store_index)
  from own_record_after_appends [OF ok ne ee demo_plain fe ie]
  obtain entry where
    "entry_of (saveMessages empty_store ''c1'' demo_three) ''c1'' = Some entry"
    "messageCount entry = length demo_three"
    "lastUpdated entry = Some (meta_updated_iso (menv (fst (last demo_three))))"
    "lastMessage entry =
       Some \<lparr>p_role = role (snd (last demo_three)),
             p_content = take 100 (content (snd (last demo_three))) @
               (if length (content (snd (last demo_three))) > 100 then ''...'' else []),
             p_timestamp = timestamp (snd (last demo_three))\<rparr>"
    by blast
  then have c1: "\<exists>entry. entry_of (saveMessages empty_store ''c1'' demo_three) ''c1'' = Some entry \<and>
      messageCount entry = 3 \<and>
      lastUpdated entry = Some ''2023-11-14T22:13:20.002Z'' \<and>
      lastMessage entry = Some \<lparr>p_role = ''user'', p_content = ''turn 2'',
                                  p_timestamp = ''2023-11-14T22:13:19.000Z''\<rparr>"
    by (simp add: len lst)
  from ok len log none md st arr nm c1 show ?thesis
    by simp
qed

text \<open>
  C10 (import) does not hold of the code for every conversation id. Importing 61
  messages under the id \<open>constructor\<close> into an empty directory stores all 61 as they
  are, but creates no record: \<open>metadata.json\<close> holds \<open>{}\<close>. The same import under the
  id \<open>imported\<close> creates the record with \<open>messageCount = 1\<close>, and its title and
  \<open>lastMessage\<close> are those of the last message, \<open>So long, and thanks for all the fish!\<close>.
\<close>

theorem import_record_missing:
  "length demo_import_data = 61 \<and>
   fst (importConversation empty_store demo_import_data (Some ''constructor'') demo_import_env)
     = Inr ''constructor'' \<and>
   files (snd (importConversation empty_store demo_import_data (Some ''constructor'')
       demo_import_env)) ''constructor'' = Some demo_import_data \<and>
   entry_of (snd (importConversation empty_store demo_import_data (Some ''constructor'')
       demo_import_env)) ''constructor'' = None \<and>
   metadata (snd (importConversation empty_store demo_import_data (Some ''constructor'')
       demo_import_env)) = Some [] \<and>
   files (snd (importConversation empty_store demo_import_data (Some ''imported'')
       demo_import_env)) ''imported'' = Some demo_import_data \<and>
   entry_of (snd (importConversation empty_store demo_import_data (Some ''imported'')
       demo_import_env)) ''imported''
     = Some \<lparr>createdAt = ''2023-11-14T22:13:20.001Z'', messageCount = 1,
             title = ''So long and thanks for'',
             lastUpdated = Some ''2023-11-14T22:13:20.002Z'',
             lastMessage = Some \<lparr>p_role = ''user'',
               p_content = ''So long, and thanks for all the fish!'',
               p_timestamp = ''2023-11-14T22:13:19.000Z''\<rparr>\<rparr>"
proof -
  have w: "import_write_ok demo_import_env" and mw: "meta_write_ok (import_menv demo_import_env)"
    and ne: "demo_import_data \<noteq> []" and len: "length demo_import_data = 61"
    and l: "last demo_import_data = demo_final"
    by (simp_all add: demo_import_ok)
  have e: "entry_of empty_store k = None" for k
    by (simp add: empty_store_index)
  note bad = import_inherited_name [OF w constructor_inherited e, of demo_import_data]
  have md: "metadata (snd (importConversation empty_store demo_import_data (Some ''constructor'')
       demo_import_env)) = Some []"
    using w mw ne
    by (simp add: importConversation_def Let_def import_id_def updateConversationMetadata_def
          update_index_object_def write_index_def read_index_def inherited_value_def
          object_prototype_names_def empty_store_def)
  have i: "import_id (Some ''imported'') demo_import_env = ''imported''"
    by (simp add: import_id_def)
  have p: "plain_id (import_id (Some ''imported'') demo_import_env)"
    by (simp add: i plain_id_def)
  have f: "files empty_store ''metadata'' = None"
    by (simp add: empty_store_index)
  have inh: "inherited_value empty_store (import_id (Some ''imported'') demo_import_env)
               = NotInherited"
    by (simp add: i inherited_value_def object_prototype_names_def empty_store_def)
  note good = import_plain_id [OF w mw ne e p f inh]
  have fields: "role demo_final = ''user''" "timestamp demo_final = ''2023-11-14T22:13:19.000Z''"
    "content demo_final = ''So long, and thanks for all the fish!''"
    by (simp_all add: demo_final_def demo_msg_def)
  have envs: "meta_created_iso (import_menv demo_import_env) = ''2023-11-14T22:13:20.001Z''"
    "meta_updated_iso (import_menv demo_import_env) = ''2023-11-14T22:13:20.002Z''"
    by (simp_all add: demo_import_env_def demo_menv_def)
  from good have g: "files (snd (importConversation empty_store demo_import_data (Some ''imported'')
       demo_import_env)) ''imported'' = Some demo_import_data"
    "entry_of (snd (importConversation empty_store demo_import_data (Some ''imported'')
       demo_import_env)) ''imported''
     = Some \<lparr>createdAt = ''2023-11-14T22:13:20.001Z'', messageCount = 1,
             title = ''So long and thanks for'',
             lastUpdated = Some ''2023-11-14T22:13:20.002Z'',
             lastMessage = Some \<lparr>p_role = ''user'',
               p_content = ''So long, and thanks for all the fish!'',
               p_timestamp = ''2023-11-14T22:13:19.000Z''\<rparr>\<rparr>"
    unfolding i l demo_final_title by (simp_all add: fields envs)
  from len bad md g show ?thesis
    by simp
qed

section \<open>The chat endpoint (\<open>POST /api/chat\<close>) and the delete endpoint\<close>

text \<open>What a provider adapter is called with, and what \<open>generateResponse\<close> returns.\<close>

record gen_request =
  g_messages :: "message list"
  g_model :: "string option"
  g_systemPrompt :: "string option"
  g_temperature :: "real option"
  g_maxTokens :: "nat option"

record gen_result =
  r_content :: string
  r_model :: string
  r_usage :: usage







definition or_default :: "'a option \<Rightarrow> 'a \<Rightarrow> 'a" where
  "or_default v d = (case v of None \<Rightarrow> d | Some x \<Rightarrow> x)"











subsection \<open>Concrete requests for the worked examples\<close>






section \<open>Properties of the endpoints\<close>












section \<open>The provider adapters\<close>

text \<open>
  Every service has \<open>generateResponse\<close>, \<open>streamResponse\<close> and \<open>formatMessages\<close>; the
  names below carry the service as a prefix. The vendor's client is a parameter: a
  function from the call the adapter makes to what the vendor answers, \<open>Inl\<close> when the
  call throws.
\<close>

record wire_message =
  w_role :: string
  w_content :: string

text \<open>\<open>if (systemPrompt)\<close>: neither absent nor empty.\<close>

definition truthy_string :: "string option \<Rightarrow> bool" where
  "truthy_string v = (case v of None \<Rightarrow> False | Some t \<Rightarrow> t \<noteq> [])"

subsection \<open>Usage numbers\<close>

definition js_num :: "int option \<Rightarrow> jsnum" where
  "js_num v = (case v of None \<Rightarrow> Undefined | Some n \<Rightarrow> Num n)"

text \<open>\<open>a + b\<close> on numbers; with \<open>undefined\<close> or \<open>NaN\<close> on a side the sum is \<open>NaN\<close>.\<close>

fun js_add :: "jsnum \<Rightarrow> jsnum \<Rightarrow> jsnum" where
  "js_add (Num a) (Num b) = Num (a + b)"
| "js_add _ _ = NaN"

text \<open>\<open>x || 0\<close>: zero when \<open>x\<close> is \<open>undefined\<close>, \<open>NaN\<close> or \<open>0\<close>.\<close>

fun js_or0 :: "jsnum \<Rightarrow> jsnum" where
  "js_or0 (Num n) = Num n"
| "js_or0 _ = Num 0"

subsection \<open>Anthropic\<close>

record anthropic_call =
  ac_model :: string
  ac_max_tokens :: nat
  ac_temperature :: real
  ac_system :: "string option"
  ac_messages :: "wire_message list"
  ac_stream :: bool

record anthropic_usage =
  input_tokens :: "int option"
  output_tokens :: "int option"

text \<open>A message of the API: the texts of its content blocks, the model and the usage.\<close>

record anthropic_response =
  ar_content :: "string list"
  ar_model :: string
  ar_usage :: "anthropic_usage option"


definition anthropic_formatMessages :: "message list \<Rightarrow> wire_message list" where
  "anthropic_formatMessages messages =
     map (\<lambda>msg. \<lparr>w_role = (if role msg = ''assistant'' then ''assistant'' else ''user''),
                  w_content = content msg\<rparr>)
       (filter (\<lambda>msg. role msg \<noteq> ''system'') messages)"

definition anthropic_generate_call :: "gen_request \<Rightarrow> anthropic_call" where
  "anthropic_generate_call req =
     \<lparr>ac_model = or_default (g_model req) ''claude-3-sonnet-20240229'',
      ac_max_tokens = or_default (g_maxTokens req) 1000,
      ac_temperature = or_default (g_temperature req) (7 / 10),
      ac_system = g_systemPrompt req,
      ac_messages = anthropic_formatMessages (g_messages req),
      ac_stream = False\<rparr>"

definition anthropic_stream_call :: "gen_request \<Rightarrow> anthropic_call" where
  "anthropic_stream_call req =
     \<lparr>ac_model = or_default (g_model req) ''claude-3-sonnet-20240229'',
      ac_max_tokens = 1000,
      ac_temperature = or_default (g_temperature req) (7 / 10),
      ac_system = g_systemPrompt req,
      ac_messages = anthropic_formatMessages (g_messages req),
      ac_stream = True\<rparr>"

definition anthropic_usage_out :: "anthropic_usage \<Rightarrow> usage" where
  "anthropic_usage_out u =
     \<lparr>prompt_tokens = js_num (input_tokens u),
      completion_tokens = js_num (output_tokens u),
      total_tokens = js_add (js_num (input_tokens u)) (js_num (output_tokens u))\<rparr>"

text \<open>
  The \<open>return\<close> of \<open>generateResponse\<close>: \<open>response.content[0].text\<close> and
  \<open>response.usage.input_tokens\<close> throw a TypeError when there is no first block or no
  usage object.
\<close>

definition anthropic_result :: "anthropic_response \<Rightarrow> error + gen_result" where
  "anthropic_result response =
     (case ar_content response of
        [] \<Rightarrow> Inl TypeError
      | text # _ \<Rightarrow>
          (case ar_usage response of
             None \<Rightarrow> Inl TypeError
           | Some u \<Rightarrow> Inr \<lparr>r_content = text, r_model = ar_model response,
                            r_usage = anthropic_usage_out u\<rparr>))"

definition anthropic_generateResponse ::
  "(anthropic_call \<Rightarrow> error + anthropic_response) \<Rightarrow> gen_request \<Rightarrow> error + gen_result" where
  "anthropic_generateResponse client req =
     (case client (anthropic_generate_call req) of
        Inl err \<Rightarrow> Inl (ApiError ''Anthropic API error'' err)
      | Inr response \<Rightarrow>
          (case anthropic_result response of
             Inl err \<Rightarrow> Inl (ApiError ''Anthropic API error'' err)
           | Inr result \<Rightarrow> Inr result))"




subsection \<open>OpenAI and Mistral\<close>

text \<open>
  The body of a chat completion call; a field the adapter does not send is \<open>None\<close>.
  Mistral's adapter posts the same shape with axios.
\<close>

record completion_call =
  cc_model :: string
  cc_messages :: "wire_message list"
  cc_temperature :: real
  cc_max_tokens :: nat
  cc_top_p :: "real option"
  cc_frequency_penalty :: "real option"
  cc_presence_penalty :: "real option"
  cc_stream :: "bool option"

record completion_usage =
  u_prompt_tokens :: "int option"
  u_completion_tokens :: "int option"
  u_total_tokens :: "int option"

record completion_response =
  cr_choices :: "string list"
  cr_model :: string
  cr_usage :: "completion_usage option"



definition openai_formatMessages :: "message list \<Rightarrow> string option \<Rightarrow> wire_message list" where
  "openai_formatMessages messages systemPrompt =
     (if truthy_string systemPrompt
      then [\<lparr>w_role = ''system'', w_content = the systemPrompt\<rparr>] else []) @
     map (\<lambda>msg. \<lparr>w_role = role msg, w_content = content msg\<rparr>) messages"

definition mistral_formatMessages :: "message list \<Rightarrow> string option \<Rightarrow> wire_message list" where
  "mistral_formatMessages messages systemPrompt =
     (if truthy_string systemPrompt
      then [\<lparr>w_role = ''system'', w_content = the systemPrompt\<rparr>] else []) @
     map (\<lambda>msg. \<lparr>w_role = role msg, w_content = content msg\<rparr>) messages"

definition openai_generate_call :: "gen_request \<Rightarrow> completion_call" where
  "openai_generate_call req =
     \<lparr>cc_model = or_default (g_model req) ''gpt-4'',
      cc_messages = openai_formatMessages (g_messages req) (g_systemPrompt req),
      cc_temperature = or_default (g_temperature req) (7 / 10),
      cc_max_tokens = or_default (g_maxTokens req) 1000,
      cc_top_p = Some 1, cc_frequency_penalty = Some 0, cc_presence_penalty = Some 0,
      cc_stream = None\<rparr>"

definition openai_stream_call :: "gen_request \<Rightarrow> completion_call" where
  "openai_stream_call req =
     \<lparr>cc_model = or_default (g_model req) ''gpt-4'',
      cc_messages = openai_formatMessages (g_messages req) (g_systemPrompt req),
      cc_temperature = or_default (g_temperature req) (7 / 10),
      cc_max_tokens = 1000,
      cc_top_p = None, cc_frequency_penalty = None, cc_presence_penalty = None,
      cc_stream = Some True\<rparr>"

definition mistral_generate_call :: "gen_request \<Rightarrow> completion_call" where
  "mistral_generate_call req =
     \<lparr>cc_model = or_default (g_model req) ''mistral-large-latest'',
      cc_messages = mistral_formatMessages (g_messages req) (g_systemPrompt req),
      cc_temperature = or_default (g_temperature req) (7 / 10),
      cc_max_tokens = or_default (g_maxTokens req) 1000,
      cc_top_p = Some 1, cc_frequency_penalty = None, cc_presence_penalty = None,
      cc_stream = Some False\<rparr>"

definition mistral_stream_call :: "gen_request \<Rightarrow> completion_call" where
  "mistral_stream_call req =
     \<lparr>cc_model = or_default (g_model req) ''mistral-large-latest'',
      cc_messages = mistral_formatMessages (g_messages req) (g_systemPrompt req),
      cc_temperature = or_default (g_temperature req) (7 / 10),
      cc_max_tokens = 1000,
      cc_top_p = None, cc_frequency_penalty = None, cc_presence_penalty = None,
      cc_stream = Some True\<rparr>"

text \<open>
  The \<open>return\<close> of \<open>generateResponse\<close> in both services: the usage fields are copied
  from the vendor's usage object; \<open>choices[0].message\<close> and \<open>usage.prompt_tokens\<close> throw a
  TypeError when there is no first choice or no usage object.
\<close>

definition completion_result :: "completion_response \<Rightarrow> error + gen_result" where
  "completion_result response =
     (case cr_choices response of
        [] \<Rightarrow> Inl TypeError
      | text # _ \<Rightarrow>
          (case cr_usage response of
             None \<Rightarrow> Inl TypeError
           | Some u \<Rightarrow> Inr \<lparr>r_content = text, r_model = cr_model response,
                            r_usage = \<lparr>prompt_tokens = js_num (u_prompt_tokens u),
                                       completion_tokens = js_num (u_completion_tokens u),
                                       total_tokens = js_num (u_total_tokens u)\<rparr>\<rparr>))"


definition mistral_generateResponse ::
  "(completion_call \<Rightarrow> error + completion_response) \<Rightarrow> gen_request \<Rightarrow> error + gen_result" where
  "mistral_generateResponse post req =
     (case post (mistral_generate_call req) of
        Inl err \<Rightarrow> Inl (ApiError ''Mistral API error'' err)
      | Inr data \<Rightarrow>
          (case completion_result data of
             Inl err \<Rightarrow> Inl (ApiError ''Mistral API error'' err)
           | Inr result \<Rightarrow> Inr result))"





subsection \<open>Cohere\<close>

record cohere_call =
  co_model :: string
  co_message :: string
  co_chatHistory :: "wire_message list"
  co_preamble :: "string option"
  co_temperature :: real
  co_maxTokens :: nat

record billed_units =
  inputTokens :: "int option"
  outputTokens :: "int option"

text \<open>A chat response: its text and \<open>meta?.billedUnits\<close> (\<open>None\<close> when either is missing).\<close>

record cohere_response =
  co_text :: string
  co_billedUnits :: "billed_units option"

definition cohere_formatMessages :: "message list \<Rightarrow> wire_message list" where
  "cohere_formatMessages messages =
     map (\<lambda>msg. \<lparr>w_role = (if role msg = ''assistant'' then ''CHATBOT'' else ''USER''),
                  w_content = content msg\<rparr>) messages"

text \<open>\<open>messages[messages.length - 1].content\<close> throws a TypeError on an empty list.\<close>

definition cohere_generate_call :: "gen_request \<Rightarrow> error + cohere_call" where
  "cohere_generate_call req =
     (if g_messages req = [] then Inl TypeError
      else Inr \<lparr>co_model = or_default (g_model req) ''command'',
                co_message = content (last (g_messages req)),
                co_chatHistory = cohere_formatMessages (butlast (g_messages req)),
                co_preamble = g_systemPrompt req,
                co_temperature = or_default (g_temperature req) (7 / 10),
                co_maxTokens = or_default (g_maxTokens req) 1000\<rparr>)"

definition cohere_stream_call :: "gen_request \<Rightarrow> error + cohere_call" where
  "cohere_stream_call req =
     (if g_messages req = [] then Inl TypeError
      else Inr \<lparr>co_model = or_default (g_model req) ''command'',
                co_message = content (last (g_messages req)),
                co_chatHistory = cohere_formatMessages (butlast (g_messages req)),
                co_preamble = g_systemPrompt req,
                co_temperature = or_default (g_temperature req) (7 / 10),
                co_maxTokens = 1000\<rparr>)"

definition cohere_usage_out :: "billed_units option \<Rightarrow> usage" where
  "cohere_usage_out b =
     (let inp = (case b of None \<Rightarrow> Undefined | Some x \<Rightarrow> js_num (inputTokens x));
          out = (case b of None \<Rightarrow> Undefined | Some x \<Rightarrow> js_num (outputTokens x))
      in \<lparr>prompt_tokens = js_or0 inp, completion_tokens = js_or0 out,
          total_tokens = js_add (js_or0 inp) (js_or0 out)\<rparr>)"

definition cohere_generateResponse ::
  "(cohere_call \<Rightarrow> error + cohere_response) \<Rightarrow> gen_request \<Rightarrow> error + gen_result" where
  "cohere_generateResponse client req =
     (case cohere_generate_call req of
        Inl err \<Rightarrow> Inl (ApiError ''Cohere API error'' err)
      | Inr call \<Rightarrow>
          (case client call of
             Inl err \<Rightarrow> Inl (ApiError ''Cohere API error'' err)
           | Inr response \<Rightarrow>
               Inr \<lparr>r_content = co_text response, r_model = or_default (g_model req) ''command'',
                    r_usage = cohere_usage_out (co_billedUnits response)\<rparr>))"

subsection \<open>Gemini\<close>

text \<open>
  The model's \<open>generationConfig\<close>, the chat's history and its own \<open>generationConfig\<close>
  (\<open>None\<close> when \<open>startChat\<close> gets none), and the text sent.
\<close>

record gemini_call =
  gm_model :: string
  gm_temperature :: real
  gm_maxOutputTokens :: nat
  gm_history :: "wire_message list"
  gm_chat_config :: "(real \<times> nat) option"
  gm_text :: string

record usage_metadata =
  promptTokenCount :: "int option"
  candidatesTokenCount :: "int option"
  totalTokenCount :: "int option"

record gemini_response =
  gm_response_text :: string
  gm_usageMetadata :: "usage_metadata option"

definition gemini_formatMessages :: "message list \<Rightarrow> string option \<Rightarrow> wire_message list" where
  "gemini_formatMessages messages systemPrompt =
     (if truthy_string systemPrompt
      then [\<lparr>w_role = ''user'', w_content = the systemPrompt\<rparr>,
            \<lparr>w_role = ''model'', w_content = ''I understand.''\<rparr>]
      else []) @
     map (\<lambda>msg. \<lparr>w_role = (if role msg = ''assistant'' then ''model'' else ''user''),
                  w_content = content msg\<rparr>) messages"

text \<open>\<open>formattedMessages[formattedMessages.length - 1].parts\<close> throws on an empty list.\<close>

definition gemini_generate_call :: "gen_request \<Rightarrow> error + gemini_call" where
  "gemini_generate_call req =
     (let temperature = or_default (g_temperature req) (7 / 10);
          maxTokens = or_default (g_maxTokens req) 1000;
          formattedMessages = gemini_formatMessages (g_messages req) (g_systemPrompt req)
      in if formattedMessages = [] then Inl TypeError
         else Inr \<lparr>gm_model = or_default (g_model req) ''gemini-pro'',
                   gm_temperature = temperature, gm_maxOutputTokens = maxTokens,
                   gm_history = butlast formattedMessages,
                   gm_chat_config = Some (temperature, maxTokens),
                   gm_text = w_content (last formattedMessages)\<rparr>)"

definition gemini_stream_call :: "gen_request \<Rightarrow> error + gemini_call" where
  "gemini_stream_call req =
     (let temperature = or_default (g_temperature req) (7 / 10);
          formattedMessages = gemini_formatMessages (g_messages req) (g_systemPrompt req)
      in if formattedMessages = [] then Inl TypeError
         else Inr \<lparr>gm_model = or_default (g_model req) ''gemini-pro'',
                   gm_temperature = temperature, gm_maxOutputTokens = 1000,
                   gm_history = butlast formattedMessages,
                   gm_chat_config = None,
                   gm_text = w_content (last formattedMessages)\<rparr>)"

definition gemini_usage_out :: "usage_metadata option \<Rightarrow> usage" where
  "gemini_usage_out m =
     \<lparr>prompt_tokens = js_or0 (case m of None \<Rightarrow> Undefined | Some x \<Rightarrow> js_num (promptTokenCount x)),
      completion_tokens =
        js_or0 (case m of None \<Rightarrow> Undefined | Some x \<Rightarrow> js_num (candidatesTokenCount x)),
      total_tokens = js_or0 (case m of None \<Rightarrow> Undefined | Some x \<Rightarrow> js_num (totalTokenCount x))\<rparr>"

definition gemini_generateResponse ::
  "(gemini_call \<Rightarrow> error + gemini_response) \<Rightarrow> gen_request \<Rightarrow> error + gen_result" where
  "gemini_generateResponse client req =
     (case gemini_generate_call req of
        Inl err \<Rightarrow> Inl (ApiError ''Gemini API error'' err)
      | Inr call \<Rightarrow>
          (case client call of
             Inl err \<Rightarrow> Inl (ApiError ''Gemini API error'' err)
           | Inr response \<Rightarrow>
               Inr \<lparr>r_content = gm_response_text response,
                    r_model = or_default (g_model req) ''gemini-pro'',
                    r_usage = gemini_usage_out (gm_usageMetadata response)\<rparr>))"

subsection \<open>What a stream delivered\<close>




subsection \<open>Concrete requests and vendor answers for the worked examples\<close>

definition demo_gen_request :: "nat option \<Rightarrow> gen_request" where
  "demo_gen_request maxTokens =
     \<lparr>g_messages = [demo_msg 0], g_model = None, g_systemPrompt = Some ''Be brief.'',
      g_temperature = None, g_maxTokens = maxTokens\<rparr>"







section \<open>The Mistral stream handler\<close>

subsection \<open>JSON values and the accesses the handler makes\<close>

text \<open>
  A value \<open>JSON.parse\<close> returns. A number is kept as the decimal it was written as,
  \<open>JNumber m e\<close> for \<open>m * 10^e\<close>; its rounding to a double is not modelled. An object
  is the list of its members in the order of the text.
\<close>

datatype json =
    JNull
  | JBool bool
  | JNumber int int
  | JString string
  | JArray "json list"
  | JObject "(string \<times> json) list"

text \<open>A JavaScript value read from such a value: \<open>undefined\<close> or a JSON value.\<close>

datatype jsval = Undef | Val json

text \<open>Of a repeated key \<open>JSON.parse\<close> keeps the last member.\<close>

definition lookup_member :: "string \<Rightarrow> (string \<times> json) list \<Rightarrow> jsval" where
  "lookup_member k members = (case map_of (rev members) k of None \<Rightarrow> Undef | Some v \<Rightarrow> Val v)"

text \<open>
  \<open>v.k\<close> for a property name \<open>k\<close> that no prototype defines (\<open>choices\<close>, \<open>delta\<close>,
  \<open>content\<close>, \<open>usage\<close>): a TypeError on \<open>null\<close> and \<open>undefined\<close>, the member of an
  object, \<open>undefined\<close> on everything else.
\<close>

fun get_property :: "string \<Rightarrow> jsval \<Rightarrow> error + jsval" where
  "get_property k Undef = Inl TypeError"
| "get_property k (Val JNull) = Inl TypeError"
| "get_property k (Val (JObject members)) = Inr (lookup_member k members)"
| "get_property k (Val _) = Inr Undef"

text \<open>\<open>v[0]\<close>: the first element of an array, the first character of a string.\<close>

fun get_index0 :: "jsval \<Rightarrow> error + jsval" where
  "get_index0 Undef = Inl TypeError"
| "get_index0 (Val JNull) = Inl TypeError"
| "get_index0 (Val (JArray [])) = Inr Undef"
| "get_index0 (Val (JArray (x # xs))) = Inr (Val x)"
| "get_index0 (Val (JString [])) = Inr Undef"
| "get_index0 (Val (JString (c # cs))) = Inr (Val (JString [c]))"
| "get_index0 (Val (JObject members)) = Inr (lookup_member ''0'' members)"
| "get_index0 (Val _) = Inr Undef"

text \<open>\<open>v?.k\<close>: \<open>undefined\<close> on \<open>null\<close> and \<open>undefined\<close>, else \<open>v.k\<close>.\<close>

fun get_optional :: "string \<Rightarrow> jsval \<Rightarrow> jsval" where
  "get_optional k Undef = Undef"
| "get_optional k (Val JNull) = Undef"
| "get_optional k (Val (JObject members)) = lookup_member k members"
| "get_optional k (Val _) = Undef"

fun truthy :: "jsval \<Rightarrow> bool" where
  "truthy Undef = False"
| "truthy (Val JNull) = False"
| "truthy (Val (JBool b)) = b"
| "truthy (Val (JNumber m e)) = (m \<noteq> 0)"
| "truthy (Val (JString t)) = (t \<noteq> [])"
| "truthy (Val _) = True"

text \<open>\<open>parsed.choices[0]?.delta?.content || ''\<close>.\<close>

definition delta_content :: "json \<Rightarrow> error + json" where
  "delta_content parsed =
     (case get_property ''choices'' (Val parsed) of
        Inl err \<Rightarrow> Inl err
      | Inr choices \<Rightarrow>
          (case get_index0 choices of
             Inl err \<Rightarrow> Inl err
           | Inr choice \<Rightarrow>
               (let c = get_optional ''content'' (get_optional ''delta'' choice)
                in if truthy c then (case c of Val v \<Rightarrow> Inr v | Undef \<Rightarrow> Inr (JString []))
                   else Inr (JString []))))"

subsection \<open>The \<open>data\<close> listener\<close>

text \<open>
  The JavaScript runtime: \<open>JSON.parse\<close> (\<open>None\<close> for a SyntaxError) and the conversion
  of a value that is not a string to a string, which \<open>fullContent += content\<close> applies.
\<close>

record js_runtime =
  JSON_parse :: "string \<Rightarrow> json option"
  ToString :: "json \<Rightarrow> string"

definition string_of :: "js_runtime \<Rightarrow> json \<Rightarrow> string" where
  "string_of rt v = (case v of JString t \<Rightarrow> t | _ \<Rightarrow> ToString rt v)"

text \<open>
  The variables \<open>fullContent\<close> and \<open>usage\<close> the listener closes over, and the calls it
  has made to \<open>onChunk\<close> and \<open>onComplete\<close>.
\<close>

datatype data_event =
    Chunk json
  | Complete string string "json option"

record listener_state =
  fullContent :: string
  last_usage :: "json option"
  emitted :: "data_event list"

definition starts_with :: "string \<Rightarrow> string \<Rightarrow> bool" where
  "starts_with p line = (take (length p) line = p)"

text \<open>
  The loop over the lines of one chunk. \<open>[DONE]\<close> calls \<open>onComplete\<close> and returns from
  the listener; an exception inside the \<open>try\<close> is caught and the loop goes on.
\<close>

fun process_lines :: "js_runtime \<Rightarrow> string \<Rightarrow> string list \<Rightarrow> listener_state \<Rightarrow> listener_state" where
  "process_lines rt model [] st = st"
| "process_lines rt model (line # rest) st =
     (if starts_with ''data: '' line
      then (let d = drop 6 line
            in if d = ''[DONE]''
               then st\<lparr>emitted := emitted st @ [Complete (fullContent st) model (last_usage st)]\<rparr>
               else (case JSON_parse rt d of
                       None \<Rightarrow> process_lines rt model rest st
                     | Some parsed \<Rightarrow>
                         (case delta_content parsed of
                            Inl err \<Rightarrow> process_lines rt model rest st
                          | Inr c \<Rightarrow>
                              (let st1 = (if truthy (Val c)
                                          then st\<lparr>fullContent := fullContent st @ string_of rt c,
                                                  emitted := emitted st @ [Chunk c]\<rparr>
                                          else st)
                               in (case get_property ''usage'' (Val parsed) of
                                     Inl err \<Rightarrow> process_lines rt model rest st1
                                   | Inr u \<Rightarrow>
                                       process_lines rt model rest
                                         (if truthy u
                                          then (case u of Val v \<Rightarrow> st1\<lparr>last_usage := Some v\<rparr>
                                                | Undef \<Rightarrow> st1)
                                          else st1))))))
      else process_lines rt model rest st)"

text \<open>\<open>chunk.toString().split('\n').filter(line => line.trim())\<close>, then the loop.\<close>

definition on_data :: "js_runtime \<Rightarrow> string \<Rightarrow> listener_state \<Rightarrow> string \<Rightarrow> listener_state" where
  "on_data rt model st chunk =
     process_lines rt model (filter (\<lambda>line. trim line \<noteq> []) (split_on (CHR 0x0A) chunk)) st"

definition initial_state :: listener_state where
  "initial_state = \<lparr>fullContent = [], last_usage = None, emitted = []\<rparr>"

text \<open>The chunks of a response, one \<open>data\<close> event after the other.\<close>

definition feed :: "js_runtime \<Rightarrow> string \<Rightarrow> string list \<Rightarrow> listener_state" where
  "feed rt model chunks = foldl (on_data rt model) initial_state chunks"

subsection \<open>A JSON parser for the worked examples\<close>

text \<open>
  \<open>JSON.parse\<close> is part of the runtime, not of the repository; the properties below
  hold for any parser. To run the listener on concrete bytes, this is a parser of the
  JSON grammar: white space, \<open>null\<close>, \<open>true\<close>, \<open>false\<close>, numbers, strings with their
  escapes (a \<open>\u\<close> escape of a code unit below 256), arrays and objects. \<open>fuel\<close> bounds
  the depth of the recursion; \<open>json_parse\<close> gives it twice the length of the text.
\<close>

definition is_json_ws :: "char \<Rightarrow> bool" where
  "is_json_ws c = (code_unit c \<in> {9, 10, 13, 32})"

definition skip_ws :: "string \<Rightarrow> string" where
  "skip_ws s = dropWhile is_json_ws s"

definition is_digit :: "char \<Rightarrow> bool" where
  "is_digit c = (48 \<le> code_unit c \<and> code_unit c \<le> 57)"

definition digit_value :: "char \<Rightarrow> nat" where
  "digit_value c = code_unit c - 48"

definition digits_value :: "string \<Rightarrow> nat" where
  "digits_value ds = foldl (\<lambda>acc d. 10 * acc + digit_value d) 0 ds"

definition hex_value :: "char \<Rightarrow> nat option" where
  "hex_value c =
     (let n = code_unit c
      in if 48 \<le> n \<and> n \<le> 57 then Some (n - 48)
         else if 65 \<le> n \<and> n \<le> 70 then Some (n - 55)
         else if 97 \<le> n \<and> n \<le> 102 then Some (n - 87)
         else None)"

definition simple_escape :: "char \<Rightarrow> char option" where
  "simple_escape c =
     (if c = CHR 0x22 then Some (CHR 0x22)
      else if c = CHR 0x5C then Some (CHR 0x5C)
      else if c = CHR ''/'' then Some (CHR ''/'')
      else if c = CHR ''b'' then Some (CHR 0x08)
      else if c = CHR ''f'' then Some (CHR 0x0C)
      else if c = CHR ''n'' then Some (CHR 0x0A)
      else if c = CHR ''r'' then Some (CHR 0x0D)
      else if c = CHR ''t'' then Some (CHR 0x09)
      else None)"

text \<open>The characters of a string after its opening quote, up to the closing one.\<close>

fun parse_chars :: "string \<Rightarrow> string \<Rightarrow> (string \<times> string) option" where
  "parse_chars acc [] = None"
| "parse_chars acc (c # cs) =
     (if c = CHR 0x22 then Some (rev acc, cs)
      else if c = CHR 0x5C then
        (case cs of
           [] \<Rightarrow> None
         | e # cs1 \<Rightarrow>
             (if e = CHR ''u'' then
                (case cs1 of
                   h1 # h2 # h3 # h4 # cs2 \<Rightarrow>
                     (case (hex_value h1, hex_value h2, hex_value h3, hex_value h4) of
                        (Some a, Some b, Some c', Some d) \<Rightarrow>
                          (if a = 0 \<and> b = 0 then parse_chars (char_of (16 * c' + d) # acc) cs2
                           else None)
                      | _ \<Rightarrow> None)
                 | _ \<Rightarrow> None)
              else (case simple_escape e of
                      None \<Rightarrow> None
                    | Some x \<Rightarrow> parse_chars (x # acc) cs1)))
      else if code_unit c < 32 then None
      else parse_chars (c # acc) cs)"

text \<open>A number: \<open>-? (0 | [1-9][0-9]*) (. [0-9]+)? ([eE] [+-]? [0-9]+)?\<close>.\<close>

definition parse_number :: "string \<Rightarrow> ((int \<times> int) \<times> string) option" where
  "parse_number s =
     (let neg = (s \<noteq> [] \<and> hd s = CHR ''-'');
          s1 = (if neg then tl s else s);
          ip = takeWhile is_digit s1;
          s2 = dropWhile is_digit s1
      in if ip = [] \<or> (length ip > 1 \<and> hd ip = CHR ''0'') then None
         else
           (let has_frac = (s2 \<noteq> [] \<and> hd s2 = CHR ''.'');
                fp = (if has_frac then takeWhile is_digit (tl s2) else []);
                s3 = (if has_frac then dropWhile is_digit (tl s2) else s2)
            in if has_frac \<and> fp = [] then None
               else
                 (let has_exp = (s3 \<noteq> [] \<and> (hd s3 = CHR ''e'' \<or> hd s3 = CHR ''E''));
                      s4 = (if has_exp then tl s3 else s3);
                      eneg = (has_exp \<and> s4 \<noteq> [] \<and> hd s4 = CHR ''-'');
                      s5 = (if has_exp \<and> s4 \<noteq> [] \<and> (hd s4 = CHR ''-'' \<or> hd s4 = CHR ''+'')
                            then tl s4 else s4);
                      ep = (if has_exp then takeWhile is_digit s5 else []);
                      s6 = (if has_exp then dropWhile is_digit s5 else s3);
                      m = int (digits_value (ip @ fp));
                      e = int (digits_value ep)
                  in if has_exp \<and> ep = [] then None
                     else Some ((if neg then - m else m,
                                 (if eneg then - e else e) - int (length fp)), s6))))"

fun parse_value :: "nat \<Rightarrow> string \<Rightarrow> (json \<times> string) option"
  and parse_elements :: "nat \<Rightarrow> json list \<Rightarrow> string \<Rightarrow> (json \<times> string) option"
  and parse_members :: "nat \<Rightarrow> (string \<times> json) list \<Rightarrow> string \<Rightarrow> (json \<times> string) option"
where
  "parse_value 0 s = None"
| "parse_value (Suc fuel) s =
     (case skip_ws s of
        [] \<Rightarrow> None
      | c # cs \<Rightarrow>
          (if c = CHR ''{'' then
             (case skip_ws cs of
                [] \<Rightarrow> None
              | d # ds \<Rightarrow> if d = CHR ''}'' then Some (JObject [], ds)
                          else parse_members fuel [] (d # ds))
           else if c = CHR ''['' then
             (case skip_ws cs of
                [] \<Rightarrow> None
              | d # ds \<Rightarrow> if d = CHR '']'' then Some (JArray [], ds)
                          else parse_elements fuel [] (d # ds))
           else if c = CHR 0x22 then
             (case parse_chars [] cs of
                None \<Rightarrow> None
              | Some (t, r) \<Rightarrow> Some (JString t, r))
           else if starts_with ''null'' (c # cs) then Some (JNull, drop 4 (c # cs))
           else if starts_with ''true'' (c # cs) then Some (JBool True, drop 4 (c # cs))
           else if starts_with ''false'' (c # cs) then Some (JBool False, drop 5 (c # cs))
           else (case parse_number (c # cs) of
                   None \<Rightarrow> None
                 | Some ((m, e), r) \<Rightarrow> Some (JNumber m e, r))))"
| "parse_elements 0 acc s = None"
| "parse_elements (Suc fuel) acc s =
     (case parse_value fuel s of
        None \<Rightarrow> None
      | Some (v, r) \<Rightarrow>
          (case skip_ws r of
             [] \<Rightarrow> None
           | c # cs \<Rightarrow>
               if c = CHR '','' then parse_elements fuel (acc @ [v]) cs
               else if c = CHR '']'' then Some (JArray (acc @ [v]), cs)
               else None))"
| "parse_members 0 acc s = None"
| "parse_members (Suc fuel) acc s =
     (case skip_ws s of
        [] \<Rightarrow> None
      | q # qs \<Rightarrow>
          (if q \<noteq> CHR 0x22 then None
           else (case parse_chars [] qs of
                   None \<Rightarrow> None
                 | Some (k, r) \<Rightarrow>
                     (case skip_ws r of
                        [] \<Rightarrow> None
                      | c # cs \<Rightarrow>
                          (if c \<noteq> CHR '':'' then None
                           else (case parse_value fuel cs of
                                   None \<Rightarrow> None
                                 | Some (v, r1) \<Rightarrow>
                                     (case skip_ws r1 of
                                        [] \<Rightarrow> None
                                      | c1 # cs1 \<Rightarrow>
                                          if c1 = CHR '','' then parse_members fuel (acc @ [(k, v)]) cs1
                                          else if c1 = CHR ''}'' then Some (JObject (acc @ [(k, v)]), cs1)
                                          else None)))))))"

definition json_parse :: "string \<Rightarrow> json option" where
  "json_parse s =
     (case parse_value (2 * length s + 2) s of
        None \<Rightarrow> None
      | Some (v, r) \<Rightarrow> if skip_ws r = [] then Some v else None)"

text \<open>The runtime of the worked examples; its \<open>ToString\<close> is only applied to strings.\<close>

definition demo_runtime :: js_runtime where
  "demo_runtime = \<lparr>JSON_parse = json_parse, ToString = (\<lambda>v. ''[object Object]'')\<rparr>"

definition demo_fragment1 :: string where
  \<open>demo_fragment1 = ''{"choices":[{"delta":{"content":"He''\<close>

definition demo_fragment2 :: string where
  \<open>demo_fragment2 = ''llo"}}]}''\<close>

section \<open>Properties of the Mistral stream handler\<close>

lemma split_on_no_sep: "sep \<notin> set line \<Longrightarrow> split_on sep line = [line]"
  by (induction line) auto

lemma split_on_terminated:
  "sep \<notin> set line \<Longrightarrow> split_on sep (line @ [sep]) = [line, []]"
  by (induction line) auto

lemma trim_Nil: "trim [] = []"
  by (simp add: trim_def)

lemma trim_data_prefix: "trim (''data: '' @ p) \<noteq> []"
  by (simp add: trim_def is_space_char_def code_unit_def)

lemma starts_with_data: "starts_with ''data: '' (''data: '' @ p)"
  by (simp add: starts_with_def)

lemma split_line_ignored:
  assumes "JSON_parse rt p1 = None"
      and "CHR 0x0A \<notin> set p1" and "CHR 0x0A \<notin> set p2"
      and "p1 \<noteq> ''[DONE]''"
      and "\<not> starts_with ''data: '' p2"
  shows "on_data rt model (on_data rt model st (''data: '' @ p1)) (p2 @ [CHR 0x0A]) = st"
proof -
  have "CHR 0x0A \<notin> set (''data: '' @ p1)"
    using assms(2) by simp
  then have l1: "split_on (CHR 0x0A) (''data: '' @ p1) = [''data: '' @ p1]"
    by (rule split_on_no_sep)
  have first: "on_data rt model st (''data: '' @ p1) = st"
    unfolding on_data_def l1 using assms(1) assms(4) trim_data_prefix [of p1]
    by (simp add: starts_with_def)
  have l2: "split_on (CHR 0x0A) (p2 @ [CHR 0x0A]) = [p2, []]"
    using assms(3) by (rule split_on_terminated)
  have second: "on_data rt model st (p2 @ [CHR 0x0A]) = st"
    unfolding on_data_def l2 using assms(5) by (simp add: trim_Nil)
  show ?thesis unfolding first by (rule second)
qed


lemma complete_line_dispatched:
  assumes "JSON_parse rt p = Some parsed"
      and "delta_content parsed = Inr (JString t)" and "t \<noteq> []"
      and "get_property ''usage'' (Val parsed) = Inr Undef"
      and "CHR 0x0A \<notin> set p" and "p \<noteq> ''[DONE]''"
  shows "on_data rt model st (''data: '' @ p @ [CHR 0x0A])
           = st\<lparr>fullContent := fullContent st @ t, emitted := emitted st @ [Chunk (JString t)]\<rparr>"
proof -
  have "CHR 0x0A \<notin> set (''data: '' @ p)"
    using assms(5) by simp
  then have "split_on (CHR 0x0A) ((''data: '' @ p) @ [CHR 0x0A]) = [''data: '' @ p, []]"
    by (rule split_on_terminated)
  then have l: "split_on (CHR 0x0A) (''data: '' @ p @ [CHR 0x0A]) = [''data: '' @ p, []]"
    by simp
  show ?thesis
    unfolding on_data_def l using assms(1-4,6) trim_data_prefix [of p]
    by (simp add: starts_with_def trim_Nil string_of_def)
qed

text \<open>
  C1 (a line split across two reads), as the code has it. The listener keeps no buffer
  between reads. When the first read ends inside the JSON text of a \<open>data: \<close> line, so
  that \<open>JSON.parse\<close> rejects the fragment, and the second read brings the rest of the
  line, which does not start with \<open>data: \<close>, both are passed over: no callback is
  called and \<open>fullContent\<close> and \<open>usage\<close> stay as they were, so the content of that line
  is not delivered. A complete line that arrives in one read is dispatched: its content
  goes to \<open>onChunk\<close> once and is appended to \<open>fullContent\<close>.
\<close>

theorem split_line_dropped:
  "(JSON_parse rt p1 = None \<and> CHR 0x0A \<notin> set p1 \<and> CHR 0x0A \<notin> set p2 \<and>
    p1 \<noteq> ''[DONE]'' \<and> \<not> starts_with ''data: '' p2 \<longrightarrow>
      on_data rt model (on_data rt model st (''data: '' @ p1)) (p2 @ [CHR 0x0A]) = st) \<and>
   (JSON_parse rt p = Some parsed \<and> delta_content parsed = Inr (JString t) \<and> t \<noteq> [] \<and>
    get_property ''usage'' (Val parsed) = Inr Undef \<and> CHR 0x0A \<notin> set p \<and> p \<noteq> ''[DONE]'' \<longrightarrow>
      on_data rt model st (''data: '' @ p @ [CHR 0x0A])
        = st\<lparr>fullContent := fullContent st @ t, emitted := emitted st @ [Chunk (JString t)]\<rparr>)"
  using split_line_ignored [of rt p1 p2 model st]
    complete_line_dispatched [of rt p parsed t model st]
  by blast

theorem split_line_dropped_witness:
  "JSON_parse demo_runtime demo_fragment1 = None \<and>
   CHR 0x0A \<notin> set demo_fragment1 \<and> CHR 0x0A \<notin> set demo_fragment2 \<and>
   demo_fragment1 \<noteq> ''[DONE]'' \<and> \<not> starts_with ''data: '' demo_fragment2 \<and>
   on_data demo_runtime ''mistral-large-latest''
     (on_data demo_runtime ''mistral-large-latest'' initial_state (''data: '' @ demo_fragment1))
     (demo_fragment2 @ [CHR 0x0A]) = initial_state \<and>
   JSON_parse demo_runtime (demo_fragment1 @ demo_fragment2)
     = Some (JObject [(''choices'',
         JArray [JObject [(''delta'', JObject [(''content'', JString ''Hello'')])]])]) \<and>
   on_data demo_runtime ''mistral-large-latest'' initial_state
     (''data: '' @ (demo_fragment1 @ demo_fragment2) @ [CHR 0x0A])
     = initial_state\<lparr>fullContent := ''Hello'', emitted := [Chunk (JString ''Hello'')]\<rparr>"
proof -
  let ?parsed = "JObject [(''choices'',
         JArray [JObject [(''delta'', JObject [(''content'', JString ''Hello'')])]])]"
  have h1: "JSON_parse demo_runtime demo_fragment1 = None"
    unfolding demo_runtime_def demo_fragment1_def by simp code_simp
  have h2: "CHR 0x0A \<notin> set demo_fragment1" and h3: "CHR 0x0A \<notin> set demo_fragment2"
    and h4: "demo_fragment1 \<noteq> ''[DONE]''"
    and h5: "\<not> starts_with ''data: '' demo_fragment2"
    by (simp_all add: demo_fragment1_def demo_fragment2_def starts_with_def)
  have whole: "JSON_parse demo_runtime (demo_fragment1 @ demo_fragment2) = Some ?parsed"
    unfolding demo_runtime_def demo_fragment1_def demo_fragment2_def by simp code_simp
  have c: "delta_content ?parsed = Inr (JString ''Hello'')"
    by (simp add: delta_content_def lookup_member_def)
  have u: "get_property ''usage'' (Val ?parsed) = Inr Undef"
    by (simp add: lookup_member_def)
  have n: "CHR 0x0A \<notin> set (demo_fragment1 @ demo_fragment2)"
    using h2 h3 by simp
  have d: "demo_fragment1 @ demo_fragment2 \<noteq> ''[DONE]''"
    by (simp add: demo_fragment1_def)
  from split_line_dropped [of demo_runtime demo_fragment1 demo_fragment2
      "''mistral-large-latest''" initial_state "demo_fragment1 @ demo_fragment2" ?parsed "''Hello''"]
    h1 h2 h3 h4 h5 whole c u n d
  show ?thesis by (simp add: initial_state_def)
qed

text \<open>
  The bytes of the specification's scenario: nothing is emitted for them, so they are
  not reassembled into one delta \<open>Hello\<close>.
\<close>

theorem split_line_counterexample:
  \<open>emitted (feed demo_runtime ''mistral-large-latest''
      [''data: {"delta":"He'', ''llo"}'' @ [CHR 0x0A]]) = [] \<and>
   fullContent (feed demo_runtime ''mistral-large-latest''
      [''data: {"delta":"He'', ''llo"}'' @ [CHR 0x0A]]) = [] \<and>
   emitted (feed demo_runtime ''mistral-large-latest''
      [''data: {"delta":"He'', ''llo"}'' @ [CHR 0x0A]]) \<noteq> [Chunk (JString ''Hello'')]\<close>
  by code_simp

section \<open>Properties of the provider adapters\<close>

definition demo_mistral_no_total :: "completion_call \<Rightarrow> error + completion_response" where
  "demo_mistral_no_total call =
     Inr \<lparr>cr_choices = [''Hi!''], cr_model = cc_model call,
          cr_usage = Some \<lparr>u_prompt_tokens = Some 5, u_completion_tokens = Some 7,
                          u_total_tokens = None\<rparr>\<rparr>"

definition demo_mistral_no_usage :: "completion_call \<Rightarrow> error + completion_response" where
  "demo_mistral_no_usage call =
     Inr \<lparr>cr_choices = [''Hi!''], cr_model = cc_model call, cr_usage = None\<rparr>"

definition demo_anthropic_no_output :: "anthropic_call \<Rightarrow> error + anthropic_response" where
  "demo_anthropic_no_output call =
     Inr \<lparr>ar_content = [''Hi!''], ar_model = ac_model call,
          ar_usage = Some \<lparr>input_tokens = Some 5, output_tokens = None\<rparr>\<rparr>"









text \<open>
  C8 (\<open>maxTokens\<close>), as the code has it. In every adapter \<open>generateResponse\<close> passes the
  caller's \<open>maxTokens\<close> to the vendor (1000 when the caller gives none) and
  \<open>streamResponse\<close>, which takes no \<open>maxTokens\<close>, always passes 1000.
\<close>

theorem max_tokens_of_calls:
  "ac_max_tokens (anthropic_generate_call req) = or_default (g_maxTokens req) 1000 \<and>
   ac_max_tokens (anthropic_stream_call req) = 1000 \<and>
   cc_max_tokens (openai_generate_call req) = or_default (g_maxTokens req) 1000 \<and>
   cc_max_tokens (openai_stream_call req) = 1000 \<and>
   cc_max_tokens (mistral_generate_call req) = or_default (g_maxTokens req) 1000 \<and>
   cc_max_tokens (mistral_stream_call req) = 1000 \<and>
   map_sum id co_maxTokens (cohere_generate_call req)
     = (if g_messages req = [] then Inl TypeError else Inr (or_default (g_maxTokens req) 1000)) \<and>
   map_sum id co_maxTokens (cohere_stream_call req)
     = (if g_messages req = [] then Inl TypeError else Inr 1000) \<and>
   map_sum id gm_maxOutputTokens (gemini_generate_call req)
     = (if gemini_formatMessages (g_messages req) (g_systemPrompt req) = [] then Inl TypeError
        else Inr (or_default (g_maxTokens req) 1000)) \<and>
   map_sum id gm_maxOutputTokens (gemini_stream_call req)
     = (if gemini_formatMessages (g_messages req) (g_systemPrompt req) = [] then Inl TypeError
        else Inr 1000)"
  by (simp add: anthropic_generate_call_def anthropic_stream_call_def openai_generate_call_def
        openai_stream_call_def mistral_generate_call_def mistral_stream_call_def
        cohere_generate_call_def cohere_stream_call_def gemini_generate_call_def
        gemini_stream_call_def Let_def)

theorem max_tokens_of_calls_witness:
  "ac_max_tokens (anthropic_generate_call (demo_gen_request (Some 50))) = 50 \<and>
   ac_max_tokens (anthropic_stream_call (demo_gen_request (Some 50))) = 1000 \<and>
   cc_max_tokens (openai_generate_call (demo_gen_request None)) = 1000 \<and>
   cc_max_tokens (mistral_stream_call (demo_gen_request (Some 4000))) = 1000 \<and>
   map_sum id co_maxTokens (cohere_stream_call (demo_gen_request (Some 50))) = Inr 1000 \<and>
   map_sum id gm_maxOutputTokens (gemini_generate_call (demo_gen_request (Some 50))) = Inr 50"
  using max_tokens_of_calls [of "demo_gen_request (Some 50)"]
    max_tokens_of_calls [of "demo_gen_request None"]
    max_tokens_of_calls [of "demo_gen_request (Some 4000)"]
  by (simp add: demo_gen_request_def or_default_def gemini_formatMessages_def truthy_string_def)

theorem max_tokens_counterexample:
  "g_maxTokens (demo_gen_request (Some 50)) = Some 50 \<and>
   ac_max_tokens (anthropic_generate_call (demo_gen_request (Some 50))) = 50 \<and>
   ac_max_tokens (anthropic_stream_call (demo_gen_request (Some 50))) = 1000 \<and>
   cc_max_tokens (openai_stream_call (demo_gen_request (Some 50)))
     \<noteq> cc_max_tokens (openai_generate_call (demo_gen_request (Some 50))) \<and>
   cc_max_tokens (mistral_stream_call (demo_gen_request (Some 50)))
     \<noteq> cc_max_tokens (mistral_generate_call (demo_gen_request (Some 50)))"
  by (simp add: anthropic_generate_call_def anthropic_stream_call_def openai_generate_call_def
        openai_stream_call_def mistral_generate_call_def mistral_stream_call_def
        demo_gen_request_def or_default_def)

text \<open>
  C9 (usage). The Cohere and the Gemini adapter replace a usage number the vendor left
  out by zero; the Cohere adapter's total is the sum of the two counts.
\<close>

lemma cohere_gemini_usage_defaults:
  "cohere_usage_out None = \<lparr>prompt_tokens = Num 0, completion_tokens = Num 0, total_tokens = Num 0\<rparr> \<and>
   cohere_usage_out (Some \<lparr>inputTokens = Some a, outputTokens = None\<rparr>)
     = \<lparr>prompt_tokens = Num a, completion_tokens = Num 0, total_tokens = Num a\<rparr> \<and>
   cohere_usage_out (Some \<lparr>inputTokens = Some a, outputTokens = Some b\<rparr>)
     = \<lparr>prompt_tokens = Num a, completion_tokens = Num b, total_tokens = Num (a + b)\<rparr> \<and>
   gemini_usage_out None = \<lparr>prompt_tokens = Num 0, completion_tokens = Num 0, total_tokens = Num 0\<rparr>"
  by (simp add: cohere_usage_out_def gemini_usage_out_def js_num_def Let_def)

text \<open>
  The Anthropic adapter's total is the sum of the two counts the vendor reports, and
  the three numbers are not negative when the counts are not.
\<close>

lemma anthropic_usage_sum:
  "anthropic_usage_out \<lparr>input_tokens = Some a, output_tokens = Some b\<rparr>
     = \<lparr>prompt_tokens = Num a, completion_tokens = Num b, total_tokens = Num (a + b)\<rparr>"
  by (simp add: anthropic_usage_out_def js_num_def)

text \<open>
  The Mistral and the Anthropic adapter do not: a total the vendor left out stays
  \<open>undefined\<close>, a count it left out makes the Anthropic total \<open>NaN\<close>, and a response
  without a usage object makes \<open>generateResponse\<close> throw.
\<close>

theorem usage_not_defaulted:
  "map_sum id r_usage (mistral_generateResponse demo_mistral_no_total (demo_gen_request None))
     = Inr \<lparr>prompt_tokens = Num 5, completion_tokens = Num 7, total_tokens = Undefined\<rparr> \<and>
   mistral_generateResponse demo_mistral_no_usage (demo_gen_request None)
     = Inl (ApiError ''Mistral API error'' TypeError) \<and>
   map_sum id r_usage (anthropic_generateResponse demo_anthropic_no_output (demo_gen_request None))
     = Inr \<lparr>prompt_tokens = Num 5, completion_tokens = Undefined, total_tokens = NaN\<rparr>"
  by (simp add: mistral_generateResponse_def anthropic_generateResponse_def
        demo_mistral_no_total_def demo_mistral_no_usage_def demo_anthropic_no_output_def
        completion_result_def anthropic_result_def anthropic_usage_out_def js_num_def)

end
